theory Spec2Isabelle
  imports Main "HOL-Library.Multiset" "HOL-Library.AList"
begin

section \<open>The Kelmarsh / Penmanshiel import script\<close>

text \<open>
  A shallow embedding of \<^verbatim>\<open>src/project_kelmarsh.py\<close>: the header extractor
  \<^verbatim>\<open>get_scada_headers\<close>, the grouper \<^verbatim>\<open>get_scada_df\<close>, the derived view
  \<^verbatim>\<open>get_curtailment_df\<close>, the meter loader \<^verbatim>\<open>get_meter_data\<close> and the entry
  point \<^verbatim>\<open>prepare\<close>.

  The script is a sequence of calls to pandas, pathlib, json and yaml. Each exception of
  the source is a value \<open>Inl e\<close>; the file system and the library calls whose code is not
  part of the script are fields of an environment record.
\<close>

subsection \<open>Errors and cells\<close>

datatype error =
    ValueError | KeyError | IndexError | AttributeError | TypeError
  | FileNotFoundError | InvalidIndexError | OtherError string

text \<open>
  A cell of a data frame: the text of a CSV field, pandas' NaN for a missing one, or an
  integer, which the script meets as a label only (the keys of a header that are numbers,
  the positions pandas gives to unnamed columns).
\<close>

datatype cell = NaN | Txt string | Num int

text \<open>Running a fallible step over a list: the first exception ends the loop.\<close>

fun traverse :: "('a \<Rightarrow> error + 'b) \<Rightarrow> 'a list \<Rightarrow> error + 'b list" where
  "traverse f [] = Inr []"
| "traverse f (x # xs) =
     (case f x of
        Inl e \<Rightarrow> Inl e
      | Inr y \<Rightarrow> (case traverse f xs of Inl e \<Rightarrow> Inl e | Inr ys \<Rightarrow> Inr (y # ys)))"

text \<open>
  \<^verbatim>\<open>Series.unique()\<close> and the union of index labels keep the first occurrence of each
  value, in order of appearance (NaN counts as one value).
\<close>

fun unique :: "'a list \<Rightarrow> 'a list" where
  "unique [] = []"
| "unique (x # xs) = x # unique (filter (\<lambda>y. y \<noteq> x) xs)"

text \<open>Looking a label up in a row: the first cell under that label, NaN when there is none.\<close>

definition cell_at :: "'l list \<Rightarrow> cell list \<Rightarrow> 'l \<Rightarrow> cell" where
  "cell_at labels r n = (case map_of (zip labels r) n of None \<Rightarrow> NaN | Some v \<Rightarrow> v)"

subsection \<open>Data frames\<close>

text \<open>
  \<open>table\<close> is a data frame with the default integer index (which the script never
  reads); \<open>frame\<close> is a data frame indexed by one labelled column, as
  \<^verbatim>\<open>read_csv(..., index_col=...)\<close> returns it: each row is its index cell and its cells.
\<close>

record table =
  columns :: "string list"
  rows :: "cell list list"

record frame =
  index_name :: "string option"
  fcols :: "string list"
  frows :: "(cell \<times> cell list) list"

text \<open>\<^verbatim>\<open>df[n]\<close> read as a list of cells, for a label that occurs once.\<close>

definition table_column :: "table \<Rightarrow> string \<Rightarrow> cell list" where
  "table_column t n = map (\<lambda>r. cell_at (columns t) r n) (rows t)"

definition frame_column :: "frame \<Rightarrow> string \<Rightarrow> cell list" where
  "frame_column f n = map (\<lambda>(i, r). cell_at (fcols f) r n) (frows f)"

text \<open>\<^verbatim>\<open>df[n] = v\<close> with a scalar: overwrite the column when it exists, append it otherwise.\<close>

definition set_column :: "frame \<Rightarrow> string \<Rightarrow> cell \<Rightarrow> frame" where
  "set_column f n v =
     (if n \<in> set (fcols f)
      then f\<lparr>frows := map (\<lambda>(i, r). (i, map (\<lambda>(c, x). if c = n then v else x) (zip (fcols f) r)))
                          (frows f)\<rparr>
      else f\<lparr>fcols := fcols f @ [n], frows := map (\<lambda>(i, r). (i, r @ [v])) (frows f)\<rparr>)"

text \<open>
  \<^verbatim>\<open>pd.concat(frames)\<close> along the rows: no frame at all raises ValueError; otherwise the
  rows follow each other in list order, aligned on the union of the column labels, and a
  cell a frame has no column for is NaN.
\<close>

definition concat_frames :: "frame list \<Rightarrow> error + frame" where
  "concat_frames fs =
     (if fs = [] then Inl ValueError
      else let cols = unique (concat (map fcols fs)) in
        Inr \<lparr>index_name =
               (if list_all (\<lambda>f. index_name f = index_name (hd fs)) fs
                then index_name (hd fs) else None),
             fcols = cols,
             frows = concat (map (\<lambda>f. map (\<lambda>(i, r). (i, map (cell_at (fcols f) r) cols))
                                          (frows f)) fs)\<rparr>)"

text \<open>\<^verbatim>\<open>df.reset_index()\<close> of a frame: the index becomes the first column.\<close>

definition reset_index :: "frame \<Rightarrow> table" where
  "reset_index f =
     \<lparr>columns = (case index_name f of None \<Rightarrow> ''index'' | Some n \<Rightarrow> n) # fcols f,
      rows = map (\<lambda>(i, r). i # r) (frows f)\<rparr>"

subsection \<open>Files\<close>

text \<open>
  A file is described by what pandas parses from it under the parameter sets of the
  script. \<open>header_block\<close> is the result of
  \<^verbatim>\<open>read_csv(f, index_col=0, skiprows=2, nrows=4, delimiter=": ", header=None)\<close>: a
  frame whose index \<open>hkeys\<close> is the first field of each line that is read (a text, a
  number when pandas reads the fields as numbers, NaN for an empty field) and whose
  columns \<open>hvalues\<close>, labelled 1, 2, ... by pandas, are the fields that follow the
  separator: as many columns as the first line has separators, none when it has none.
  \<open>body k\<close> is the table under \<^verbatim>\<open>skiprows=k\<close>, before any column is selected:
  the labels of the first line that is read and the data lines below it.
\<close>

record csv =
  names :: "string list"
  lines :: "cell list list"

record header_frame =
  hkeys :: "cell list"
  hvalues :: "cell list list"

record csv_file =
  header_block :: "error + header_frame"
  body :: "nat \<Rightarrow> error + csv"

text \<open>
  The file system as the loaders find it: \<open>file_at\<close> gives the file at a path,
  \<open>rglob\<close> the matches of \<^verbatim>\<open>Path(path).rglob(pattern)\<close> in the order the call
  enumerates them, \<open>resolve\<close> is \<^verbatim>\<open>Path.resolve\<close>.
\<close>

record filesystem =
  file_at :: "string \<Rightarrow> csv_file option"
  rglob :: "string \<Rightarrow> string \<Rightarrow> string list"
  resolve :: "string \<Rightarrow> string"

definition exists :: "filesystem \<Rightarrow> string \<Rightarrow> bool" where
  "exists fs p = (file_at fs p \<noteq> None)"

text \<open>
  \<^verbatim>\<open>pd.read_csv(f, index_col=i, parse_dates=True, skiprows=k, usecols=u)\<close>. An empty
  \<open>u\<close> selects no column, and pandas returns a frame with no column and no row. A
  label of \<open>u\<close> the file does not have raises ValueError, and so does an index
  column outside \<open>u\<close>; the kept columns stand in the file's order, and the index
  column leaves the data columns. \<open>None\<close> as the path is an object that is not a
  path (a number, NaN), on which pandas raises ValueError.
\<close>

definition select_columns :: "csv \<Rightarrow> string list \<Rightarrow> string \<Rightarrow> error + frame" where
  "select_columns c usecols index_col =
     (let labels = unique (names c) in
      if usecols = [] then Inr \<lparr>index_name = None, fcols = [], frows = []\<rparr>
      else if \<not> (set usecols \<subseteq> set labels) \<or> index_col \<notin> set usecols then Inl ValueError
      else let kept = filter (\<lambda>n. n \<in> set usecols \<and> n \<noteq> index_col) labels in
        Inr \<lparr>index_name = Some index_col,
             fcols = kept,
             frows = map (\<lambda>r. (cell_at (names c) r index_col, map (cell_at (names c) r) kept))
                         (lines c)\<rparr>)"

definition read_csv :: "filesystem \<Rightarrow> string option \<Rightarrow> nat \<Rightarrow> string list \<Rightarrow> string \<Rightarrow> error + frame" where
  "read_csv fs p skiprows usecols index_col =
     (case p of
        None \<Rightarrow> Inl ValueError
      | Some path \<Rightarrow>
          (case file_at fs path of
             None \<Rightarrow> Inl FileNotFoundError
           | Some f \<Rightarrow>
               (case body f skiprows of
                  Inl e \<Rightarrow> Inl e
                | Inr c \<Rightarrow> select_columns c usecols index_col)))"

text \<open>\<^verbatim>\<open>pd.read_csv(path)\<close> with no parameter: every column, default index.\<close>

definition read_table :: "filesystem \<Rightarrow> string \<Rightarrow> error + table" where
  "read_table fs path =
     (case file_at fs path of
        None \<Rightarrow> Inl FileNotFoundError
      | Some f \<Rightarrow>
          (case body f 0 of
             Inl e \<Rightarrow> Inl e
           | Inr c \<Rightarrow>
               Inr \<lparr>columns = unique (names c),
                    rows = map (\<lambda>r. map (cell_at (names c) r) (unique (names c))) (lines c)\<rparr>))"

subsection \<open>get\_scada\_headers\<close>

text \<open>\<^verbatim>\<open>index.str.replace("# ", "")\<close>: every occurrence of the two characters goes.\<close>

fun str_replace :: "string \<Rightarrow> string" where
  "str_replace (a # b # cs) =
     (if a = CHR ''#'' \<and> b = CHR '' '' then str_replace cs else a # str_replace (b # cs))"
| "str_replace cs = cs"

definition read_header :: "filesystem \<Rightarrow> string \<Rightarrow> error + header_frame" where
  "read_header fs path =
     (case file_at fs path of None \<Rightarrow> Inl FileNotFoundError | Some f \<Rightarrow> header_block f)"

text \<open>
  \<^verbatim>\<open>.rename(columns={1: f})\<close>: the columns of one header frame with their labels,
  the path for column 1 and the position for every further column.
\<close>

definition header_columns :: "string \<Rightarrow> header_frame \<Rightarrow> (cell \<times> cell list) list" where
  "header_columns f h =
     map (\<lambda>(j, col). (if j = 1 then Txt f else Num (int j), col))
         (zip [1..<Suc (length (hvalues h))] (hvalues h))"

text \<open>
  \<^verbatim>\<open>pd.concat(frames, axis=1)\<close> joins the frames on their indexes. Equal indexes are
  kept as they are; different ones are united, which pandas refuses when one of them
  repeats a label.
\<close>

definition union_index :: "cell list list \<Rightarrow> error + cell list" where
  "union_index idxs =
     (if list_all (\<lambda>i. i = hd idxs) idxs then Inr (hd idxs)
      else if list_all distinct idxs then Inr (unique (concat idxs))
      else Inl InvalidIndexError)"

text \<open>
  A column of a frame with the index \<open>own\<close>, under the joint index \<open>keys\<close>: the
  column itself when the frame's index is the joint one, and otherwise its cell for each
  key, NaN for a key the frame lacks.
\<close>

definition reindex :: "cell list \<Rightarrow> cell list \<Rightarrow> cell list \<Rightarrow> cell list" where
  "reindex keys own col = (if own = keys then col else map (cell_at own col) keys)"

text \<open>
  \<^verbatim>\<open>index.str.replace("# ", "")\<close> on the joint index. The \<^verbatim>\<open>str\<close> accessor raises
  AttributeError on an index that holds no text at all, unless it is empty; in an index
  that holds texts, a label that is not a text becomes NaN.
\<close>

definition is_text :: "cell \<Rightarrow> bool" where
  "is_text c = (case c of Txt s \<Rightarrow> True | _ \<Rightarrow> False)"

definition strip_key :: "cell \<Rightarrow> cell" where
  "strip_key k = (case k of Txt s \<Rightarrow> Txt (str_replace s) | _ \<Rightarrow> NaN)"

definition strip_index :: "cell list \<Rightarrow> error + cell list" where
  "strip_index keys =
     (if keys \<noteq> [] \<and> \<not> list_ex is_text keys then Inl AttributeError
      else Inr (map strip_key keys))"

text \<open>
  The header table: a data frame whose column labels are cells, since the stripped keys
  of the headers are its labels.
\<close>

record header_table =
  hcolumns :: "cell list"
  hrows :: "cell list list"

definition header_column :: "header_table \<Rightarrow> string \<Rightarrow> cell list" where
  "header_column t n = map (\<lambda>r. cell_at (hcolumns t) r (Txt n)) (hrows t)"

text \<open>
  The transposed frame has one row per column of the joint frame, labelled as the
  column was. \<^verbatim>\<open>reset_index()\<close> puts the row labels in a first column named
  \<^verbatim>\<open>index\<close>, or \<^verbatim>\<open>level_0\<close> when a column \<^verbatim>\<open>index\<close> exists already, and raises
  ValueError when that name is taken too; \<^verbatim>\<open>rename\<close> then turns every label
  \<^verbatim>\<open>index\<close> into \<^verbatim>\<open>File\<close>.
\<close>

definition get_scada_headers :: "filesystem \<Rightarrow> string list \<Rightarrow> error + header_table" where
  "get_scada_headers fs scada_files =
     (case traverse (read_header fs) scada_files of
        Inl e \<Rightarrow> Inl e
      | Inr hs \<Rightarrow>
          if hs = [] then Inl ValueError
          else
            (case union_index (map hkeys hs) of
               Inl e \<Rightarrow> Inl e
             | Inr keys \<Rightarrow>
                 let joined = concat (map (\<lambda>(f, h). map (\<lambda>(l, col). (l, reindex keys (hkeys h) col))
                                                          (header_columns f h))
                                          (zip scada_files hs))
                 in (case strip_index keys of
                       Inl e \<Rightarrow> Inl e
                     | Inr cols \<Rightarrow>
                         let label = (if Txt ''index'' \<in> set cols then ''level_0'' else ''index'')
                         in if Txt label \<in> set cols then Inl ValueError
                            else Inr \<lparr>hcolumns = map (\<lambda>c. if c = Txt ''index'' then Txt ''File'' else c)
                                                     (Txt label # cols),
                                      hrows = map (\<lambda>(l, col). l # col) joined\<rparr>)))"

subsection \<open>get\_scada\_df and get\_curtailment\_df\<close>

text \<open>The degree sign of the column labels, as its two UTF-8 bytes.\<close>

definition degree :: string where
  "degree = [CHR 0xC2, CHR 0xB0]"

definition date_and_time :: string where
  "date_and_time = ''# Date and time''"

definition default_columns :: "string list" where
  "default_columns =
     [date_and_time,
      ''Power (kW)'',
      ''Wind speed (m/s)'',
      ''Wind direction ('' @ degree @ '')'',
      ''Nacelle position ('' @ degree @ '')'',
      ''Nacelle ambient temperature ('' @ degree @ ''C)'',
      ''Blade angle (pitch position) A ('' @ degree @ '')'']"

text \<open>
  \<^verbatim>\<open>scada_headers["Turbine"].unique()\<close>: a missing label raises KeyError; a label
  that occurs twice selects a data frame, which has no \<^verbatim>\<open>unique\<close>.
\<close>

definition turbines :: "header_table \<Rightarrow> error + cell list" where
  "turbines scada_headers =
     (case count_list (hcolumns scada_headers) (Txt ''Turbine'') of
        0 \<Rightarrow> Inl KeyError
      | Suc 0 \<Rightarrow> Inr (unique (header_column scada_headers ''Turbine''))
      | Suc (Suc _) \<Rightarrow> Inl AttributeError)"

text \<open>
  \<^verbatim>\<open>list(scada_headers.loc[scada_headers["Turbine"] == turbine]["File"])\<close>: the rows
  whose turbine cell equals \<open>turbine\<close> (NaN equals nothing, itself included), and their
  \<^verbatim>\<open>File\<close> cells. Iterating a data frame, which a label that occurs twice selects,
  yields its column labels.
\<close>

definition turbine_rows :: "header_table \<Rightarrow> cell \<Rightarrow> cell list list" where
  "turbine_rows scada_headers turbine =
     filter (\<lambda>r. turbine \<noteq> NaN \<and> cell_at (hcolumns scada_headers) r (Txt ''Turbine'') = turbine)
            (hrows scada_headers)"

definition turbine_files :: "header_table \<Rightarrow> cell \<Rightarrow> error + cell list" where
  "turbine_files scada_headers turbine =
     (case count_list (hcolumns scada_headers) (Txt ''File'') of
        0 \<Rightarrow> Inl KeyError
      | Suc 0 \<Rightarrow> Inr (map (\<lambda>r. cell_at (hcolumns scada_headers) r (Txt ''File''))
                         (turbine_rows scada_headers turbine))
      | Suc (Suc n) \<Rightarrow> Inr (replicate (Suc (Suc n)) (Txt ''File'')))"

text \<open>The path a cell holds, if it holds a text.\<close>

definition path_of :: "cell \<Rightarrow> string option" where
  "path_of c = (case c of Txt p \<Rightarrow> Some p | _ \<Rightarrow> None)"

text \<open>The columns and the index name one turbine's frame gets after the inner concat.\<close>

definition tag_turbine :: "frame \<Rightarrow> cell \<Rightarrow> frame" where
  "tag_turbine scada_wt turbine =
     (set_column scada_wt ''Turbine'' turbine)\<lparr>index_name := Some ''Timestamp''\<rparr>"

text \<open>
  The body of the loop over the turbines: read, concatenate, tag. The loop runs it for
  the values \<open>turbines\<close> has returned, so for a header table with one
  \<^verbatim>\<open>Turbine\<close> column.
\<close>

definition scada_wt :: "filesystem \<Rightarrow> header_table \<Rightarrow> string list \<Rightarrow> cell \<Rightarrow> error + frame" where
  "scada_wt fs scada_headers use_columns turbine =
     (case turbine_files scada_headers turbine of
        Inl e \<Rightarrow> Inl e
      | Inr files \<Rightarrow>
          (case traverse (\<lambda>f. read_csv fs (path_of f) 9 use_columns date_and_time) files of
             Inl e \<Rightarrow> Inl e
           | Inr frames \<Rightarrow>
               (case concat_frames frames of
                  Inl e \<Rightarrow> Inl e
                | Inr wt \<Rightarrow> Inr (tag_turbine wt turbine))))"

definition get_scada_df :: "filesystem \<Rightarrow> header_table \<Rightarrow> string list option \<Rightarrow> error + frame" where
  "get_scada_df fs scada_headers use_columns =
     (let cols = (case use_columns of None \<Rightarrow> default_columns | Some c \<Rightarrow> c) in
      case turbines scada_headers of
        Inl e \<Rightarrow> Inl e
      | Inr ts \<Rightarrow>
          (case traverse (scada_wt fs scada_headers cols) ts of
             Inl e \<Rightarrow> Inl e
           | Inr scada_lst \<Rightarrow> concat_frames scada_lst))"

definition curtailment_columns :: "string list" where
  "curtailment_columns =
     [date_and_time,
      ''Lost Production to Curtailment (Total) (kWh)'',
      ''Lost Production to Downtime (kWh)'']"

definition get_curtailment_df :: "filesystem \<Rightarrow> header_table \<Rightarrow> error + frame" where
  "get_curtailment_df fs scada_headers = get_scada_df fs scada_headers (Some curtailment_columns)"

subsection \<open>get\_meter\_data\<close>

definition meter_columns :: "string list" where
  "meter_columns = [date_and_time, ''GMS Energy Export (kWh)'']"

text \<open>
  \<^verbatim>\<open>meter_files[0]\<close> raises IndexError on the empty list; the frame read from the first
  match gets the index name \<^verbatim>\<open>Timestamp\<close>.
\<close>

definition get_meter_data :: "filesystem \<Rightarrow> string \<Rightarrow> error + frame" where
  "get_meter_data fs path =
     (case rglob fs path ''Device*PMU*.csv'' of
        [] \<Rightarrow> Inl IndexError
      | f # _ \<Rightarrow>
          (case read_csv fs (Some f) 10 meter_columns date_and_time of
             Inl e \<Rightarrow> Inl e
           | Inr meter_df \<Rightarrow> Inr (meter_df\<lparr>index_name := Some ''Timestamp''\<rparr>)))"

subsection \<open>prepare\<close>

text \<open>
  The metadata document is a dictionary of strings and dictionaries, in the order the
  literal of the source lists its keys.
\<close>

datatype json = JStr string | JObj "(string \<times> json) list"

text \<open>The keyword arguments of the \<^verbatim>\<open>PlantData(...)\<close> call.\<close>

record plant_args =
  kw_analysis_type :: string
  kw_metadata :: string
  kw_scada :: table
  kw_meter :: table
  kw_curtail :: table
  kw_asset :: table
  kw_reanalysis :: "(string \<times> table) list"

text \<open>
  The calls whose code is outside the script, each by its outcome: the directory and
  archive operations of the staging loop, the float arithmetic of pandas and Python on a
  column (\<open>'f\<close> is the float type), the two serialisers (\<open>'t\<close> is the text they
  produce), opening a file for writing, and the constructor of openoa's
  \<^verbatim>\<open>PlantData\<close> (\<open>'p\<close> is the plant object).
\<close>

record ('f, 't, 'p) library =
  mkdir :: "string \<Rightarrow> error option"
  iterdir :: "string \<Rightarrow> error + string list"
  extractall :: "string \<Rightarrow> string \<Rightarrow> error option"
  is_symlink :: "string \<Rightarrow> bool"
  unlink :: "string \<Rightarrow> error option"
  symlink_to :: "string \<Rightarrow> string \<Rightarrow> error option"
  series_mean :: "cell list \<Rightarrow> error + 'f"
  series_sum :: "cell list \<Rightarrow> error + 'f"
  div_1000 :: "'f \<Rightarrow> 'f"
  str_float :: "'f \<Rightarrow> string"
  json_dump :: "json \<Rightarrow> nat \<Rightarrow> 't"
  yaml_dump :: "json \<Rightarrow> 't"
  open_w :: "string \<Rightarrow> error option"
  PlantData :: "plant_args \<Rightarrow> error + 'p"

text \<open>
  \<^verbatim>\<open>root_folder\<close> is a \<^verbatim>\<open>str\<close> or a \<^verbatim>\<open>Path\<close>; only a \<^verbatim>\<open>Path\<close> has
  \<^verbatim>\<open>iterdir\<close>.
\<close>

datatype pathlike = Str string | PathObj string

definition joinpath :: "string \<Rightarrow> string \<Rightarrow> string" where
  "joinpath p q = p @ ''/'' @ q"

text \<open>\<^verbatim>\<open>Path.suffix\<close>: the last dot of the name and what follows it, unless that dot
  is the first or the last character.\<close>

definition suffix :: "string \<Rightarrow> string" where
  "suffix name =
     (if CHR ''.'' \<notin> set name then []
      else let k = length (takeWhile (\<lambda>c. c \<noteq> CHR ''.'') (rev name));
               i = length name - 1 - k
           in if 0 < i \<and> i < length name - 1 then drop i name else [])"

text \<open>The loop over \<^verbatim>\<open>root_folder.iterdir()\<close>: archives are extracted, everything else
  is linked into the output folder.\<close>

fun stage :: "('f, 't, 'p) library \<Rightarrow> filesystem \<Rightarrow> string \<Rightarrow> string \<Rightarrow> string list \<Rightarrow> error option" where
  "stage L fs root output_folder [] = None"
| "stage L fs root output_folder (name # ps) =
     (case (if suffix name = ''.zip'' then extractall L (joinpath root name) output_folder
            else let link = joinpath output_folder name in
              (case (if is_symlink L link then unlink L link else None) of
                 Some e \<Rightarrow> Some e
               | None \<Rightarrow> symlink_to L (resolve fs link) (joinpath root name))) of
        Some e \<Rightarrow> Some e
      | None \<Rightarrow> stage L fs root output_folder ps)"

definition extract_step :: "('f, 't, 'p) library \<Rightarrow> filesystem \<Rightarrow> pathlike \<Rightarrow> string \<Rightarrow> error option" where
  "extract_step L fs root_folder output_folder =
     (case root_folder of
        Str _ \<Rightarrow> Some AttributeError
      | PathObj root \<Rightarrow>
          (case iterdir L root of
             Inl e \<Rightarrow> Some e
           | Inr ps \<Rightarrow> stage L fs root output_folder ps))"

text \<open>The decimal text of an integer, as an f-string formats \<^verbatim>\<open>year\<close>.\<close>

function str_nat :: "nat \<Rightarrow> string" where
  "str_nat n = (if n < 10 then [''0123456789'' ! n] else str_nat (n div 10) @ [''0123456789'' ! (n mod 10)])"
  by pat_completeness auto
termination
  by (relation "measure id") auto

declare str_nat.simps [simp del]

definition str_int :: "int \<Rightarrow> string" where
  "str_int i = (if i < 0 then CHR ''-'' # str_nat (nat (- i)) else str_nat (nat i))"

definition scada_pattern :: "int option \<Rightarrow> string" where
  "scada_pattern year =
     (case year of
        Some y \<Rightarrow> ''Turbine_Data*'' @ str_int y @ ''*.csv''
      | None \<Rightarrow> ''Turbine_Data*.csv'')"

text \<open>\<^verbatim>\<open>dropna(how="all")\<close> and \<^verbatim>\<open>asset_df["type"] = "turbine"\<close>.\<close>

definition dropna_all :: "table \<Rightarrow> table" where
  "dropna_all t = t\<lparr>rows := filter (\<lambda>r. \<not> list_all (\<lambda>c. c = NaN) r) (rows t)\<rparr>"

definition table_set_column :: "table \<Rightarrow> string \<Rightarrow> cell \<Rightarrow> table" where
  "table_set_column t n v =
     (if n \<in> set (columns t)
      then t\<lparr>rows := map (\<lambda>r. map (\<lambda>(c, x). if c = n then v else x) (zip (columns t) r)) (rows t)\<rparr>
      else t\<lparr>columns := columns t @ [n], rows := map (\<lambda>r. r @ [v]) (rows t)\<rparr>)"

definition read_asset :: "filesystem \<Rightarrow> string \<Rightarrow> string \<Rightarrow> error + table" where
  "read_asset fs path asset =
     (case read_table fs (joinpath path (asset @ ''_WT_static.csv'')) of
        Inl e \<Rightarrow> Inl e
      | Inr asset_df \<Rightarrow> Inr (table_set_column (dropna_all asset_df) ''type'' (Txt ''turbine'')))"

text \<open>
  The reanalysis stage. MERRA2 and ERA5 are checked under the resolved path and read
  under the plain one; each enters the dictionary under its key. The monthly MERRA2 file
  is checked and read, and the frame read is bound to a local name only.
\<close>

definition read_reanalysis :: "filesystem \<Rightarrow> string \<Rightarrow> string \<Rightarrow> error + (string \<times> table) list" where
  "read_reanalysis fs path asset =
     (let reanalysis_dict = [];
          asset_path = resolve fs path in
      case (if exists fs (joinpath asset_path (asset @ ''_merra2.csv''))
            then (case read_table fs (joinpath path (asset @ ''_merra2.csv'')) of
                    Inl e \<Rightarrow> Inl e
                  | Inr reanalysis_merra2_df \<Rightarrow>
                      Inr (AList.update ''merra2'' reanalysis_merra2_df reanalysis_dict))
            else Inr reanalysis_dict) of
        Inl e \<Rightarrow> Inl e
      | Inr reanalysis_dict \<Rightarrow>
          (case (if exists fs (joinpath asset_path (asset @ ''_era5.csv''))
                 then (case read_table fs (joinpath path (asset @ ''_era5.csv'')) of
                         Inl e \<Rightarrow> Inl e
                       | Inr reanalysis_era5_df \<Rightarrow>
                           Inr (AList.update ''era5'' reanalysis_era5_df reanalysis_dict))
                 else Inr reanalysis_dict) of
             Inl e \<Rightarrow> Inl e
           | Inr reanalysis_dict \<Rightarrow>
               (if exists fs (joinpath path (''merra2_monthly_10m/'' @ asset @ ''_merra2_monthly_10m.csv''))
                then (case read_table fs
                             (joinpath path (''merra2_monthly_10m/'' @ asset @ ''_merra2_monthly_10m.csv'')) of
                        Inl e \<Rightarrow> Inl e
                      | Inr reanalysis_merra2_monthly_df \<Rightarrow> Inr reanalysis_dict)
                else Inr reanalysis_dict)))"

text \<open>\<^verbatim>\<open>asset_df[n]\<close> of a table whose labels are distinct.\<close>

definition getitem :: "table \<Rightarrow> string \<Rightarrow> error + cell list" where
  "getitem t n = (if n \<in> set (columns t) then Inr (table_column t n) else Inl KeyError)"

definition column_mean :: "('f, 't, 'p) library \<Rightarrow> table \<Rightarrow> string \<Rightarrow> error + 'f" where
  "column_mean L t n = (case getitem t n of Inl e \<Rightarrow> Inl e | Inr s \<Rightarrow> series_mean L s)"

definition column_sum :: "('f, 't, 'p) library \<Rightarrow> table \<Rightarrow> string \<Rightarrow> error + 'f" where
  "column_sum L t n = (case getitem t n of Inl e \<Rightarrow> Inl e | Inr s \<Rightarrow> series_sum L s)"

text \<open>The dictionary literal \<^verbatim>\<open>asset_json\<close>, with its three computed entries.\<close>

definition metadata_document :: "string \<Rightarrow> string \<Rightarrow> string \<Rightarrow> json" where
  "metadata_document latitude longitude capacity =
     JObj [
       (''asset'', JObj [
          (''elevation'', JStr ''Elevation (m)''),
          (''hub_height'', JStr ''Hub Height (m)''),
          (''asset_id'', JStr ''Title''),
          (''latitude'', JStr ''Latitude''),
          (''longitude'', JStr ''Longitude''),
          (''rated_power'', JStr ''Rated power (kW)''),
          (''rotor_diameter'', JStr ''Rotor Diameter (m)'')]),
       (''curtail'', JObj [
          (''IAVL_DnWh'', JStr ''Lost Production to Downtime (kWh)''),
          (''IAVL_ExtPwrDnWh'', JStr ''Lost Production to Curtailment (Total) (kWh)''),
          (''frequency'', JStr ''10min''),
          (''time'', JStr ''Timestamp'')]),
       (''latitude'', JStr latitude),
       (''longitude'', JStr longitude),
       (''capacity'', JStr capacity),
       (''meter'', JObj [
          (''MMTR_SupWh'', JStr ''GMS Energy Export (kWh)''),
          (''time'', JStr ''Timestamp'')]),
       (''reanalysis'', JObj []),
       (''scada'', JObj [
          (''WMET_EnvTmp'', JStr (''Nacelle ambient temperature ('' @ degree @ ''C)'')),
          (''WMET_HorWdDir'', JStr (''Wind direction ('' @ degree @ '')'')),
          (''WMET_HorWdSpd'', JStr ''Wind speed (m/s)''),
          (''WROT_BlPthAngVal'', JStr (''Blade angle (pitch position) A ('' @ degree @ '')'')),
          (''asset_id'', JStr ''Turbine''),
          (''WTUR_W'', JStr ''Power (kW)''),
          (''frequency'', JStr ''10min''),
          (''time'', JStr ''Timestamp'')])]"

definition asset_json :: "('f, 't, 'p) library \<Rightarrow> table \<Rightarrow> error + json" where
  "asset_json L asset_df =
     (case column_mean L asset_df ''Latitude'' of
        Inl e \<Rightarrow> Inl e
      | Inr lat \<Rightarrow>
          (case column_mean L asset_df ''Longitude'' of
             Inl e \<Rightarrow> Inl e
           | Inr lon \<Rightarrow>
               (case column_sum L asset_df ''Rated power (kW)'' of
                  Inl e \<Rightarrow> Inl e
                | Inr rated \<Rightarrow>
                    Inr (metadata_document (str_float L lat) (str_float L lon)
                           (str_float L (div_1000 L rated))))))"

text \<open>
  Everything \<^verbatim>\<open>prepare\<close> reads, in the order of the source: the output folder is
  created, the archives are staged when \<^verbatim>\<open>extract\<close> is set, then the asset table,
  the SCADA headers and frame, the meter frame, the curtailment frame and the reanalysis
  dictionary are loaded. The first exception ends the run.
\<close>

definition load_tables ::
  "('f, 't, 'p) library \<Rightarrow> filesystem \<Rightarrow> pathlike \<Rightarrow> string \<Rightarrow> string \<Rightarrow> int option \<Rightarrow> bool
     \<Rightarrow> error + (table \<times> table \<times> table \<times> table \<times> (string \<times> table) list)" where
  "load_tables L fs root_folder asset output_folder year extract =
     (case mkdir L output_folder of
        Some e \<Rightarrow> Inl e
      | None \<Rightarrow>
     (case (if extract then extract_step L fs root_folder output_folder else None) of
        Some e \<Rightarrow> Inl e
      | None \<Rightarrow>
     (let path = output_folder in
      case read_asset fs path asset of
        Inl e \<Rightarrow> Inl e
      | Inr asset_df \<Rightarrow>
     (case get_scada_headers fs (rglob fs path (scada_pattern year)) of
        Inl e \<Rightarrow> Inl e
      | Inr scada_headers \<Rightarrow>
     (case get_scada_df fs scada_headers None of
        Inl e \<Rightarrow> Inl e
      | Inr scada_df \<Rightarrow>
     (case get_meter_data fs path of
        Inl e \<Rightarrow> Inl e
      | Inr meter_df \<Rightarrow>
     (case get_curtailment_df fs scada_headers of
        Inl e \<Rightarrow> Inl e
      | Inr curtail_df \<Rightarrow>
     (case read_reanalysis fs path asset of
        Inl e \<Rightarrow> Inl e
      | Inr reanalysis_dict \<Rightarrow>
          Inr (reset_index scada_df, reset_index meter_df, reset_index curtail_df,
               asset_df, reanalysis_dict)))))))))"

text \<open>
  What \<^verbatim>\<open>prepare\<close> returns: the tuple of data frames, the plant object, or
  \<^verbatim>\<open>None\<close> for any other \<^verbatim>\<open>return_value\<close>.
\<close>

datatype 'p result =
    Dataframes table table table table "(string \<times> table) list"
  | Plant 'p
  | NoneValue

text \<open>
  \<^verbatim>\<open>prepare\<close> returns its result together with the files it has written, in order:
  each is the path and the text the serialiser produced for it.
\<close>

definition prepare ::
  "('f, 't, 'p) library \<Rightarrow> filesystem \<Rightarrow> pathlike \<Rightarrow> string \<Rightarrow> string \<Rightarrow> int option \<Rightarrow> string \<Rightarrow> bool
     \<Rightarrow> (error + 'p result) \<times> (string \<times> 't) list" where
  "prepare L fs root_folder asset output_folder year return_value extract =
     (let path = output_folder in
      case load_tables L fs root_folder asset output_folder year extract of
        Inl e \<Rightarrow> (Inl e, [])
      | Inr (scada_df, meter_df, curtail_df, asset_df, reanalysis_dict) \<Rightarrow>
     (case asset_json L asset_df of
        Inl e \<Rightarrow> (Inl e, [])
      | Inr doc \<Rightarrow>
     (case open_w L (joinpath path ''plant_meta.json'') of
        Some e \<Rightarrow> (Inl e, [])
      | None \<Rightarrow>
     (let written = [(joinpath path ''plant_meta.json'', json_dump L doc 2)] in
      case open_w L (joinpath path ''plant_meta.yml'') of
        Some e \<Rightarrow> (Inl e, written)
      | None \<Rightarrow>
     (let written = written @ [(joinpath path ''plant_meta.yml'', yaml_dump L doc)] in
      if return_value = ''dataframes''
      then (Inr (Dataframes scada_df meter_df curtail_df asset_df reanalysis_dict), written)
      else if return_value = ''plantdata''
      then (case PlantData L
                   \<lparr>kw_analysis_type = ''MonteCarloAEP'',
                    kw_metadata = joinpath path ''plant_meta.yml'',
                    kw_scada = scada_df,
                    kw_meter = meter_df,
                    kw_curtail = curtail_df,
                    kw_asset = asset_df,
                    kw_reanalysis = []\<rparr> of
              Inl e \<Rightarrow> (Inl e, written)
            | Inr plantdata \<Rightarrow> (Inr (Plant plantdata), written))
      else (Inr NoneValue, written))))))"

subsection \<open>Well-formed frames\<close>

text \<open>
  A frame as pandas builds it: its column labels are distinct and every row has one cell
  per column.
\<close>

definition wf_frame :: "frame \<Rightarrow> bool" where
  "wf_frame f = (distinct (fcols f) \<and> list_all (\<lambda>(i, r). length r = length (fcols f)) (frows f))"

subsection \<open>A small wind farm\<close>

text \<open>
  Two turbines, one with a file per year and one with a single file; two meter exports;
  the static table with an empty line; the ERA5 file. The output folder is
  \<^verbatim>\<open>/data\<close>.
\<close>

definition scada_names :: "string list" where
  "scada_names = default_columns @ tl curtailment_columns"

definition scada_file :: "string \<Rightarrow> string list \<Rightarrow> csv_file" where
  "scada_file turbine stamps =
     \<lparr>header_block = Inr \<lparr>hkeys = [Txt ''# Turbine'', Txt ''# Time zone''],
                           hvalues = [[Txt turbine, Txt ''UTC'']]\<rparr>,
      body = (\<lambda>k. if k = 9
                    then Inr \<lparr>names = scada_names,
                              lines = map (\<lambda>s. map Txt (s # replicate 8 ''1.5'')) stamps\<rparr>
                    else Inl (OtherError ''parse''))\<rparr>"

definition plain_file :: "nat \<Rightarrow> csv \<Rightarrow> csv_file" where
  "plain_file k c =
     \<lparr>header_block = Inl (OtherError ''parse''),
      body = (\<lambda>n. if n = k then Inr c else Inl (OtherError ''parse''))\<rparr>"

definition k1_2020 :: string where "k1_2020 = ''/data/Turbine_Data_Kelmarsh_1_2020.csv''"
definition k1_2021 :: string where "k1_2021 = ''/data/Turbine_Data_Kelmarsh_1_2021.csv''"
definition k2_2020 :: string where "k2_2020 = ''/data/Turbine_Data_Kelmarsh_2_2020.csv''"

definition farm_files :: "(string \<times> csv_file) list" where
  "farm_files =
     [(k1_2020, scada_file ''Kelmarsh 1'' [''2020-01-01 00:00'', ''2020-01-01 00:10'']),
      (k1_2021, scada_file ''Kelmarsh 1'' [''2021-01-01 00:00'']),
      (k2_2020, scada_file ''Kelmarsh 2'' [''2020-01-01 00:00'', ''2020-01-01 00:10'', ''2020-01-01 00:20'']),
      (''/data/Device_Data_PMU_a.csv'',
         plain_file 10 \<lparr>names = meter_columns,
                         lines = [[Txt ''2020-01-01 00:00'', Txt ''100''],
                                  [Txt ''2020-01-01 00:10'', Txt ''120'']]\<rparr>),
      (''/data/Device_Data_PMU_b.csv'',
         plain_file 10 \<lparr>names = meter_columns, lines = [[Txt ''2021-01-01 00:00'', Txt ''7'']]\<rparr>),
      (''/data/Kelmarsh_WT_static.csv'',
         plain_file 0 \<lparr>names = [''Title'', ''Latitude'', ''Longitude'', ''Rated power (kW)''],
                        lines = [[Txt ''Kelmarsh 1'', Txt ''52.4'', Txt ''-0.94'', Txt ''2050''],
                                 [NaN, NaN, NaN, NaN],
                                 [Txt ''Kelmarsh 2'', Txt ''52.5'', Txt ''-0.95'', Txt ''2050'']]\<rparr>),
      (''/data/Kelmarsh_era5.csv'',
         plain_file 0 \<lparr>names = [''datetime'', ''ws_100m''], lines = [[Txt ''2020-01-01'', Txt ''8.1'']]\<rparr>)]"

definition farm :: filesystem where
  "farm =
     \<lparr>file_at = map_of farm_files,
      rglob = (\<lambda>path pattern.
         if path = ''/data'' \<and> pattern = ''Turbine_Data*.csv'' then [k1_2020, k1_2021, k2_2020]
         else if path = ''/data'' \<and> pattern = ''Turbine_Data*2020*.csv'' then [k1_2020, k2_2020]
         else if path = ''/data'' \<and> pattern = ''Device*PMU*.csv''
              then [''/data/Device_Data_PMU_a.csv'', ''/data/Device_Data_PMU_b.csv'']
         else []),
      resolve = (\<lambda>p. p)\<rparr>"

definition farm_headers :: header_table where
  "farm_headers =
     \<lparr>hcolumns = [Txt ''File'', Txt ''Turbine'', Txt ''Time zone''],
      hrows = [[Txt k1_2020, Txt ''Kelmarsh 1'', Txt ''UTC''],
               [Txt k1_2021, Txt ''Kelmarsh 1'', Txt ''UTC''],
               [Txt k2_2020, Txt ''Kelmarsh 2'', Txt ''UTC'']]\<rparr>"

subsection \<open>Reading a metadata document\<close>

text \<open>
  What a document holds at a path of keys: a string, a dictionary, or nothing. Two
  documents with the same content at every path are equal as Python dictionaries,
  whatever the order of their keys.
\<close>

datatype node = Text string | Dict

fun document :: "json \<Rightarrow> string list \<Rightarrow> node option" where
  "document (JStr s) [] = Some (Text s)"
| "document (JStr s) (k # ks) = None"
| "document (JObj kvs) [] = Some Dict"
| "document (JObj kvs) (k # ks) =
     (case map_of kvs k of None \<Rightarrow> None | Some v \<Rightarrow> document v ks)"

subsection \<open>A library for the example farm\<close>

text \<open>
  The library calls of the example keep what they were given: a float is the term of
  its computation, rendered by \<open>render\<close>; a serialised text is the document with
  the format it was written in, and \<open>load\<close> reads it back; every directory and
  archive operation succeeds, and \<^verbatim>\<open>PlantData\<close> returns its arguments.
\<close>

datatype number = Mean "cell list" | Sum "cell list" | Div1000 number

definition cell_text :: "cell \<Rightarrow> string" where
  "cell_text c = (case c of NaN \<Rightarrow> '' nan'' | Txt x \<Rightarrow> CHR '' '' # x | Num i \<Rightarrow> CHR '' '' # str_int i)"

fun render :: "number \<Rightarrow> string" where
  "render (Mean s) = ''mean'' @ concat (map cell_text s)"
| "render (Sum s) = ''sum'' @ concat (map cell_text s)"
| "render (Div1000 x) = render x @ '' / 1000''"

datatype artifact = JsonText nat json | YamlText json

fun load :: "artifact \<Rightarrow> json" where
  "load (JsonText indent d) = d"
| "load (YamlText d) = d"

definition symbolic :: "(number, artifact, plant_args) library" where
  "symbolic =
     \<lparr>mkdir = (\<lambda>p. None),
      iterdir = (\<lambda>p. Inr []),
      extractall = (\<lambda>p q. None),
      is_symlink = (\<lambda>p. False),
      unlink = (\<lambda>p. None),
      symlink_to = (\<lambda>p q. None),
      series_mean = (\<lambda>s. Inr (Mean s)),
      series_sum = (\<lambda>s. Inr (Sum s)),
      div_1000 = Div1000,
      str_float = render,
      json_dump = (\<lambda>d indent. JsonText indent d),
      yaml_dump = YamlText,
      open_w = (\<lambda>p. None),
      PlantData = Inr\<rparr>"

text \<open>The farm with the monthly MERRA2 file in its folder.\<close>

definition monthly_path :: string where
  "monthly_path = ''/data/merra2_monthly_10m/Kelmarsh_merra2_monthly_10m.csv''"

definition farm_monthly :: filesystem where
  "farm_monthly =
     farm\<lparr>file_at := map_of
       ((monthly_path,
         plain_file 0 \<lparr>names = [''datetime'', ''ws_10m''], lines = [[Txt ''2020-01'', Txt ''5.2'']]\<rparr>)
        # farm_files)\<rparr>"

text \<open>The arguments \<^verbatim>\<open>prepare\<close> passes to \<^verbatim>\<open>PlantData\<close>.\<close>

definition plantdata_call :: "string \<Rightarrow> table \<Rightarrow> table \<Rightarrow> table \<Rightarrow> table \<Rightarrow> plant_args" where
  "plantdata_call path scada_df meter_df curtail_df asset_df =
     \<lparr>kw_analysis_type = ''MonteCarloAEP'',
      kw_metadata = joinpath path ''plant_meta.yml'',
      kw_scada = scada_df,
      kw_meter = meter_df,
      kw_curtail = curtail_df,
      kw_asset = asset_df,
      kw_reanalysis = []\<rparr>"

subsection \<open>What the header table and the files hold\<close>

text \<open>
  The body of the SCADA file a cell of the header table names, when there is one; the
  index cells of that body and their number; the files the loop reads for a turbine; the
  index cells of a turbine's files in the order they are read; the column selector in
  force; and the turbines in the order the loop visits them.
\<close>

definition body_csv :: "filesystem \<Rightarrow> cell \<Rightarrow> csv option" where
  "body_csv fs p =
     (case path_of p of
        None \<Rightarrow> None
      | Some path \<Rightarrow>
          (case file_at fs path of
             None \<Rightarrow> None
           | Some f \<Rightarrow> (case body f 9 of Inl e \<Rightarrow> None | Inr c \<Rightarrow> Some c)))"

definition body_index :: "filesystem \<Rightarrow> cell \<Rightarrow> cell list" where
  "body_index fs p =
     (case body_csv fs p of
        None \<Rightarrow> []
      | Some c \<Rightarrow> map (\<lambda>r. cell_at (names c) r date_and_time) (lines c))"

definition body_rows :: "filesystem \<Rightarrow> cell \<Rightarrow> nat" where
  "body_rows fs p = length (body_index fs p)"

definition files_of :: "header_table \<Rightarrow> cell \<Rightarrow> cell list" where
  "files_of scada_headers turbine =
     (case turbine_files scada_headers turbine of Inl e \<Rightarrow> [] | Inr files \<Rightarrow> files)"

definition turbine_index :: "filesystem \<Rightarrow> header_table \<Rightarrow> cell \<Rightarrow> cell list" where
  "turbine_index fs scada_headers turbine =
     concat (map (body_index fs) (files_of scada_headers turbine))"

definition selected :: "string list option \<Rightarrow> string list" where
  "selected use_columns = (case use_columns of None \<Rightarrow> default_columns | Some c \<Rightarrow> c)"

definition turbine_list :: "header_table \<Rightarrow> cell list" where
  "turbine_list scada_headers = unique (header_column scada_headers ''Turbine'')"

text \<open>
  The row of the SCADA frame that stands for one body line of a file: the line's
  timestamp as the index, and under each column of the frame the line's cell under that
  label, the turbine under \<^verbatim>\<open>Turbine\<close>. \<open>file_lines\<close> are the body lines of a
  file, each with the table it belongs to, and \<open>file_rows\<close> their rows, in order.
\<close>

definition scada_row :: "string list \<Rightarrow> cell \<Rightarrow> csv \<Rightarrow> cell list \<Rightarrow> cell \<times> cell list" where
  "scada_row cols turbine c r =
     (cell_at (names c) r date_and_time,
      map (\<lambda>n. if n = ''Turbine'' then turbine else cell_at (names c) r n) cols)"

definition file_lines :: "filesystem \<Rightarrow> cell \<Rightarrow> (csv \<times> cell list) list" where
  "file_lines fs p = (case body_csv fs p of None \<Rightarrow> [] | Some c \<Rightarrow> map (Pair c) (lines c))"

definition file_rows :: "filesystem \<Rightarrow> string list \<Rightarrow> cell \<Rightarrow> cell \<Rightarrow> (cell \<times> cell list) list" where
  "file_rows fs cols turbine p = map (\<lambda>(c, r). scada_row cols turbine c r) (file_lines fs p)"

text \<open>
  The rows a header row stands for: the rows of its file, tagged with its turbine.
\<close>

definition header_row_rows :: "filesystem \<Rightarrow> header_table \<Rightarrow> string list \<Rightarrow> cell list \<Rightarrow> (cell \<times> cell list) list" where
  "header_row_rows fs scada_headers cols hr =
     file_rows fs cols (cell_at (hcolumns scada_headers) hr (Txt ''Turbine''))
                       (cell_at (hcolumns scada_headers) hr (Txt ''File''))"

text \<open>
  The headers read from a list of files (empty for a file that cannot be read), the
  keys they declare in order of first appearance, a header with one value per key, and
  a text free of the marker \<^verbatim>\<open># \<close>.
\<close>

definition headers_of :: "filesystem \<Rightarrow> string list \<Rightarrow> header_frame list" where
  "headers_of fs scada_files =
     map (\<lambda>f. case read_header fs f of Inl e \<Rightarrow> \<lparr>hkeys = [], hvalues = []\<rparr> | Inr h \<Rightarrow> h) scada_files"

definition header_keys :: "filesystem \<Rightarrow> string list \<Rightarrow> cell list" where
  "header_keys fs scada_files = unique (concat (map hkeys (headers_of fs scada_files)))"

definition one_value :: "header_frame \<Rightarrow> bool" where
  "one_value h = (length (hvalues h) = 1)"

definition marker_free :: "string \<Rightarrow> bool" where
  "marker_free k = (\<not> list_ex (\<lambda>i. k ! i = CHR ''#'' \<and> k ! Suc i = CHR '' '') [0..<length k - 1])"

subsection \<open>Variants of the farm\<close>

text \<open>
  \<open>farm_idle\<close>: the file of the second turbine has a header and no body row;
  \<open>idle_scada\<close> is the SCADA frame built from it. \<open>empty_scada\<close> is the frame
  an empty column selector gives. \<open>farm_twice\<close>: a seventh turbine whose header has a
  key \<^verbatim>\<open>File\<close>, so that its header table \<open>twice_headers\<close> has two columns of that
  name, and a file of that name in the working directory; \<open>twice_scada\<close> is the frame
  built from that table. \<open>farm_mixed\<close>: a third turbine whose header has a key
  the others lack and lacks one they have; a file whose first header line holds the
  separator twice; a file whose keys are numbers; a file that repeats a key; a file
  whose header lines hold no separator.
\<close>

definition farm_idle :: filesystem where
  "farm_idle = farm\<lparr>file_at := map_of ((k2_2020, scada_file ''Kelmarsh 2'' []) # farm_files)\<rparr>"

definition idle_scada :: frame where
  "idle_scada =
     \<lparr>index_name = Some ''Timestamp'',
      fcols = tl default_columns @ [''Turbine''],
      frows = map (\<lambda>s. (Txt s, replicate 6 (Txt ''1.5'') @ [Txt ''Kelmarsh 1'']))
                  [''2020-01-01 00:00'', ''2020-01-01 00:10'', ''2021-01-01 00:00'']\<rparr>"

definition empty_scada :: frame where
  "empty_scada = \<lparr>index_name = Some ''Timestamp'', fcols = [''Turbine''], frows = []\<rparr>"

definition k7_2020 :: string where "k7_2020 = ''/data/Turbine_Data_Kelmarsh_7_2020.csv''"

definition farm_twice :: filesystem where
  "farm_twice =
     farm\<lparr>file_at := map_of
       ((''File'', scada_file ''Kelmarsh 9'' [''2019-01-01 00:00''])
        # (k7_2020, (scada_file ''Kelmarsh 7'' [''2020-01-01 00:00'', ''2020-01-01 00:10'', ''2020-01-01 00:20''])
                    \<lparr>header_block := Inr \<lparr>hkeys = [Txt ''# Turbine'', Txt ''# File''],
                                           hvalues = [[Txt ''Kelmarsh 7'', Txt ''log.csv'']]\<rparr>\<rparr>)
        # farm_files)\<rparr>"

definition twice_headers :: header_table where
  "twice_headers =
     \<lparr>hcolumns = [Txt ''File'', Txt ''Turbine'', Txt ''File''],
      hrows = [[Txt k7_2020, Txt ''Kelmarsh 7'', Txt ''log.csv'']]\<rparr>"

definition twice_scada :: frame where
  "twice_scada =
     \<lparr>index_name = Some ''Timestamp'',
      fcols = tl default_columns @ [''Turbine''],
      frows = map (\<lambda>s. (Txt s, replicate 6 (Txt ''1.5'') @ [Txt ''Kelmarsh 7'']))
                  [''2019-01-01 00:00'', ''2019-01-01 00:00'']\<rparr>"

definition k3_2020 :: string where "k3_2020 = ''/data/Turbine_Data_Kelmarsh_3_2020.csv''"
definition k4_2020 :: string where "k4_2020 = ''/data/Turbine_Data_Kelmarsh_4_2020.csv''"
definition k5_2020 :: string where "k5_2020 = ''/data/Turbine_Data_Kelmarsh_5_2020.csv''"
definition k6_2020 :: string where "k6_2020 = ''/data/Turbine_Data_Kelmarsh_6_2020.csv''"
definition k8_2020 :: string where "k8_2020 = ''/data/Turbine_Data_Kelmarsh_8_2020.csv''"

definition farm_mixed :: filesystem where
  "farm_mixed =
     farm\<lparr>file_at := map_of
       ((k3_2020, (scada_file ''Kelmarsh 3'' [''2020-01-01 00:00''])
                    \<lparr>header_block := Inr \<lparr>hkeys = [Txt ''# Turbine'', Txt ''# Hub height''],
                                           hvalues = [[Txt ''Kelmarsh 3'', Txt ''78.5'']]\<rparr>\<rparr>)
        # (k4_2020, (scada_file ''Kelmarsh 4'' [''2020-01-01 00:00''])
                    \<lparr>header_block := Inr \<lparr>hkeys = [Txt ''# Turbine'', Txt ''# Time zone''],
                                           hvalues = [[Txt ''Kelmarsh 4'', Txt ''UTC''],
                                                      [Txt ''spare'', NaN]]\<rparr>\<rparr>)
        # (k5_2020, (scada_file ''Kelmarsh 5'' [''2020-01-01 00:00''])
                    \<lparr>header_block := Inr \<lparr>hkeys = [Num 1, Num 2],
                                           hvalues = [[Txt ''Kelmarsh 5'', Txt ''UTC'']]\<rparr>\<rparr>)
        # (k6_2020, (scada_file ''Kelmarsh 6'' [''2020-01-01 00:00''])
                    \<lparr>header_block := Inr \<lparr>hkeys = [Txt ''# Turbine'', Txt ''# Turbine''],
                                           hvalues = [[Txt ''Kelmarsh 6'', Txt ''Kelmarsh 7'']]\<rparr>\<rparr>)
        # (k8_2020, (scada_file ''Kelmarsh 8'' [''2020-01-01 00:00''])
                    \<lparr>header_block := Inr \<lparr>hkeys = [Txt ''# Turbine = Kelmarsh 8'', Txt ''# Time zone = UTC''],
                                           hvalues = []\<rparr>\<rparr>)
        # farm_files)\<rparr>"

definition mixed_headers :: header_table where
  "mixed_headers =
     \<lparr>hcolumns = [Txt ''File'', Txt ''Turbine'', Txt ''Time zone'', Txt ''Hub height''],
      hrows = [[Txt k1_2020, Txt ''Kelmarsh 1'', Txt ''UTC'', NaN],
               [Txt k3_2020, Txt ''Kelmarsh 3'', NaN, Txt ''78.5'']]\<rparr>"

definition two_row_headers :: header_table where
  "two_row_headers =
     \<lparr>hcolumns = [Txt ''File'', Txt ''Turbine'', Txt ''Time zone''],
      hrows = [[Txt k4_2020, Txt ''Kelmarsh 4'', Txt ''UTC''],
               [Num 2, Txt ''spare'', NaN]]\<rparr>"

definition no_row_headers :: header_table where
  "no_row_headers =
     \<lparr>hcolumns = [Txt ''File'', Txt ''Turbine = Kelmarsh 8'', Txt ''Time zone = UTC''],
      hrows = []\<rparr>"


section \<open>Properties\<close>

subsection \<open>Auxiliary facts\<close>

lemma traverse_length: "traverse f xs = Inr ys \<Longrightarrow> length ys = length xs"
  by (induction xs arbitrary: ys) (auto split: sum.splits)

lemma traverse_Inr_iff: "traverse f xs = Inr ys \<longleftrightarrow> list_all2 (\<lambda>x y. f x = Inr y) xs ys"
proof (induction xs arbitrary: ys)
  case Nil
  then show ?case by auto
next
  case (Cons x xs)
  show ?case
  proof (cases "f x")
    case (Inl e)
    then show ?thesis by (cases ys) auto
  next
    case fx: (Inr y)
    show ?thesis
    proof (cases "traverse f xs")
      case (Inl e)
      with Cons.IH fx show ?thesis by (cases ys) auto
    next
      case (Inr zs)
      with Cons.IH fx show ?thesis by (cases ys) auto
    qed
  qed
qed

lemma set_unique [simp]: "set (unique xs) = set xs"
  by (induction xs rule: unique.induct) auto

lemma distinct_unique [simp]: "distinct (unique xs)"
  by (induction xs rule: unique.induct) auto

lemma unique_distinct: "distinct xs \<Longrightarrow> unique xs = xs"
proof (induction xs)
  case Nil
  then show ?case by simp
next
  case (Cons x xs)
  then have "filter (\<lambda>y. y \<noteq> x) xs = xs"
    by (auto intro: filter_True)
  with Cons show ?case by simp
qed

lemma length_unique: "length (unique xs) = card (set xs)"
  using distinct_card [of "unique xs"] by simp

lemma cell_at_self:
  "distinct labels \<Longrightarrow> length r = length labels \<Longrightarrow> map (cell_at labels r) labels = r"
proof (induction labels arbitrary: r)
  case Nil
  then show ?case by simp
next
  case (Cons l ls)
  then obtain x xs where r: "r = x # xs" by (cases r) auto
  have "map (cell_at (l # ls) (x # xs)) ls = map (cell_at ls xs) ls"
    using Cons.prems(1) by (intro map_cong) (auto simp: cell_at_def)
  moreover have "map (cell_at ls xs) ls = xs"
    using Cons r by simp
  moreover have "cell_at (l # ls) (x # xs) l = x"
    by (simp add: cell_at_def)
  ultimately show ?case using r by simp
qed

lemma wf_select_columns: "select_columns c u i = Inr f \<Longrightarrow> wf_frame f"
  unfolding select_columns_def Let_def
  by (cases "u = []"; cases "\<not> set u \<subseteq> set (unique (names c)) \<or> i \<notin> set u")
     (auto simp: wf_frame_def list_all_iff)

lemma wf_read_csv: "read_csv fs p k u i = Inr f \<Longrightarrow> wf_frame f"
  by (auto simp: read_csv_def wf_select_columns split: option.splits sum.splits)

lemma concat_frames_nonempty:
  "fs \<noteq> [] \<Longrightarrow> concat_frames fs =
     Inr \<lparr>index_name =
               (if list_all (\<lambda>f. index_name f = index_name (hd fs)) fs
                then index_name (hd fs) else None),
          fcols = unique (concat (map fcols fs)),
          frows = concat (map (\<lambda>f. map (\<lambda>(i, r). (i, map (cell_at (fcols f) r)
                                 (unique (concat (map fcols fs))))) (frows f)) fs)\<rparr>"
  by (simp add: concat_frames_def Let_def)

lemma concat_frames_Inr:
  assumes "concat_frames fs = Inr f"
  shows "fs \<noteq> []"
    and "fcols f = unique (concat (map fcols fs))"
    and "frows f = concat (map (\<lambda>g. map (\<lambda>(i, r). (i, map (cell_at (fcols g) r) (fcols f))) (frows g)) fs)"
proof -
  show ne: "fs \<noteq> []" using assms by (auto simp: concat_frames_def)
  from concat_frames_nonempty [OF ne] assms
  have f: "f = \<lparr>index_name =
               (if list_all (\<lambda>f. index_name f = index_name (hd fs)) fs
                then index_name (hd fs) else None),
          fcols = unique (concat (map fcols fs)),
          frows = concat (map (\<lambda>f. map (\<lambda>(i, r). (i, map (cell_at (fcols f) r)
                                 (unique (concat (map fcols fs))))) (frows f)) fs)\<rparr>"
    by simp
  show "fcols f = unique (concat (map fcols fs))" by (subst f) simp
  then show "frows f = concat (map (\<lambda>g. map (\<lambda>(i, r). (i, map (cell_at (fcols g) r) (fcols f))) (frows g)) fs)"
    by (subst f) simp
qed

lemma wf_concat_frames: "concat_frames fs = Inr f \<Longrightarrow> wf_frame f"
  unfolding wf_frame_def list_all_iff
  by (auto simp: concat_frames_Inr(2) concat_frames_Inr(3) [of fs f])

lemma concat_frames_single: "wf_frame f \<Longrightarrow> concat_frames [f] = Inr f"
proof -
  assume wf: "wf_frame f"
  then have d: "unique (fcols f) = fcols f"
    by (simp add: wf_frame_def unique_distinct)
  have "map (\<lambda>(i, r). (i, map (cell_at (fcols f) r) (fcols f))) (frows f) = frows f"
    using wf by (intro map_idI) (auto simp: wf_frame_def list_all_iff cell_at_self)
  then show ?thesis
    by (simp add: concat_frames_nonempty d)
qed

lemma length_concat_frames:
  "concat_frames fs = Inr f \<Longrightarrow> length (frows f) = sum_list (map (\<lambda>g. length (frows g)) fs)"
  by (simp add: concat_frames_Inr(3) [of fs f] length_concat comp_def)

lemma length_tag_turbine [simp]: "length (frows (tag_turbine w t)) = length (frows w)"
  by (simp add: tag_turbine_def set_column_def)

subsection \<open>The example farm\<close>

lemma farm_get_scada_headers:
  "get_scada_headers farm [k1_2020, k1_2021, k2_2020] = Inr farm_headers"
  by code_simp


subsection \<open>C7: a turbine with a single file\<close>

text \<open>
  C7. When the header table lists exactly one file for a turbine, the frame the loop
  body builds for that turbine is the frame read from that file, tagged with the turbine:
  the inner concatenation of the one frame changes nothing, and a failure to read the
  file is the failure of the loop body. The loop body is the same function for any
  number of files.
\<close>

theorem single_file_turbine:
  assumes "turbine_files scada_headers turbine = Inr [f]"
  shows "scada_wt fs scada_headers use_columns turbine =
           (case read_csv fs (path_of f) 9 use_columns date_and_time of
              Inl e \<Rightarrow> Inl e
            | Inr fr \<Rightarrow> Inr (tag_turbine fr turbine))"
proof (cases "read_csv fs (path_of f) 9 use_columns date_and_time")
  case (Inl e)
  with assms show ?thesis by (simp add: scada_wt_def)
next
  case (Inr fr)
  then have "concat_frames [fr] = Inr fr"
    by (intro concat_frames_single wf_read_csv)
  with Inr assms show ?thesis by (simp add: scada_wt_def)
qed

lemma farm_single_file:
  "turbine_files farm_headers (Txt ''Kelmarsh 2'') = Inr [Txt k2_2020] \<and>
   read_csv farm (path_of (Txt k2_2020)) 9 default_columns date_and_time =
     Inr \<lparr>index_name = Some date_and_time,
          fcols = tl default_columns,
          frows = map (\<lambda>s. (Txt s, replicate 6 (Txt ''1.5'')))
                      [''2020-01-01 00:00'', ''2020-01-01 00:10'', ''2020-01-01 00:20'']\<rparr>"
  by code_simp

theorem single_file_turbine_witness:
  "turbine_files farm_headers (Txt ''Kelmarsh 2'') = Inr [Txt k2_2020] \<and>
   scada_wt farm farm_headers default_columns (Txt ''Kelmarsh 2'') =
     Inr (tag_turbine
            \<lparr>index_name = Some date_and_time,
             fcols = tl default_columns,
             frows = map (\<lambda>s. (Txt s, replicate 6 (Txt ''1.5'')))
                         [''2020-01-01 00:00'', ''2020-01-01 00:10'', ''2020-01-01 00:20'']\<rparr>
            (Txt ''Kelmarsh 2''))"
proof -
  from farm_single_file have h: "turbine_files farm_headers (Txt ''Kelmarsh 2'') = Inr [Txt k2_2020]"
    by simp
  from single_file_turbine [OF h, of farm default_columns] farm_single_file
  show ?thesis by simp
qed

subsection \<open>C5: missing required files\<close>

lemma get_scada_headers_Nil: "get_scada_headers fs [] = Inl ValueError"
  by (simp add: get_scada_headers_def)

lemma load_tables_no_scada:
  assumes "rglob fs output_folder (scada_pattern year) = []"
  shows "\<exists>e. load_tables L fs root asset output_folder year extract = Inl e"
  using assms
  by (simp add: load_tables_def get_scada_headers_Nil split: option.splits sum.splits)

lemma get_meter_data_Nil:
  "rglob fs path ''Device*PMU*.csv'' = [] \<Longrightarrow> get_meter_data fs path = Inl IndexError"
  by (simp add: get_meter_data_def)

lemma load_tables_no_meter:
  assumes "rglob fs output_folder ''Device*PMU*.csv'' = []"
  shows "\<exists>e. load_tables L fs root asset output_folder year extract = Inl e"
  using get_meter_data_Nil [OF assms]
  by (simp add: load_tables_def split: option.splits sum.splits)

lemma read_asset_missing:
  "file_at fs (joinpath path (asset @ ''_WT_static.csv'')) = None
     \<Longrightarrow> read_asset fs path asset = Inl FileNotFoundError"
  by (simp add: read_asset_def read_table_def)

lemma load_tables_no_asset:
  assumes "file_at fs (joinpath output_folder (asset @ ''_WT_static.csv'')) = None"
  shows "\<exists>e. load_tables L fs root asset output_folder year extract = Inl e"
  using read_asset_missing [OF assms]
  by (simp add: load_tables_def split: option.splits sum.splits)

lemma prepare_load_fails:
  "load_tables L fs root asset output_folder year extract = Inl e
     \<Longrightarrow> prepare L fs root asset output_folder year rv extract = (Inl e, [])"
  by (simp add: prepare_def)

text \<open>
  C5. The header extractor raises ValueError on an empty list of files instead of
  returning an empty table. A run of \<^verbatim>\<open>prepare\<close> in which the SCADA pattern (with
  or without the year) matches no file, or the meter pattern matches no file, or the
  static asset file does not exist, ends in an exception and has written no file.
\<close>

theorem missing_files_abort:
  "get_scada_headers fs [] = Inl ValueError \<and>
   (rglob fs output_folder (scada_pattern year) = [] \<longrightarrow>
      (\<exists>e. prepare L fs root asset output_folder year rv extract = (Inl e, []))) \<and>
   (rglob fs output_folder ''Device*PMU*.csv'' = [] \<longrightarrow>
      (\<exists>e. prepare L fs root asset output_folder year rv extract = (Inl e, []))) \<and>
   (file_at fs (joinpath output_folder (asset @ ''_WT_static.csv'')) = None \<longrightarrow>
      (\<exists>e. prepare L fs root asset output_folder year rv extract = (Inl e, [])))"
  using load_tables_no_scada load_tables_no_meter load_tables_no_asset
  by (metis get_scada_headers_Nil prepare_load_fails)

theorem missing_files_abort_witness:
  "rglob farm ''/data'' (scada_pattern (Some 1999)) = [] \<and>
   (\<exists>e. prepare symbolic farm (PathObj ''/zenodo'') ''Kelmarsh'' ''/data'' (Some 1999) ''dataframes'' True
          = (Inl e, []))"
proof -
  have h: "rglob farm ''/data'' (scada_pattern (Some 1999)) = []"
    by code_simp
  from missing_files_abort [THEN conjunct2, THEN conjunct1, rule_format, OF h] h
  show ?thesis by blast
qed

subsection \<open>C6: the meter loader\<close>

text \<open>
  C6. With no match of \<^verbatim>\<open>Device*PMU*.csv\<close> the meter loader raises IndexError. With
  matches, its result is the read of the first one in the order of enumeration, with
  the index renamed, whatever the other matches are. Every frame it returns is the
  frame read from that first match: no table is made up in place of a file.
\<close>

theorem meter_first_match:
  "(rglob fs path ''Device*PMU*.csv'' = [] \<longrightarrow> get_meter_data fs path = Inl IndexError) \<and>
   (\<forall>f rest. rglob fs path ''Device*PMU*.csv'' = f # rest \<longrightarrow>
      get_meter_data fs path =
        (case read_csv fs (Some f) 10 meter_columns date_and_time of
           Inl e \<Rightarrow> Inl e
         | Inr meter_df \<Rightarrow> Inr (meter_df\<lparr>index_name := Some ''Timestamp''\<rparr>))) \<and>
   (\<forall>m. get_meter_data fs path = Inr m \<longrightarrow>
      (\<exists>f rest fr. rglob fs path ''Device*PMU*.csv'' = f # rest \<and>
         read_csv fs (Some f) 10 meter_columns date_and_time = Inr fr \<and>
         m = fr\<lparr>index_name := Some ''Timestamp''\<rparr>))"
  by (auto simp: get_meter_data_def split: list.splits sum.splits)

theorem meter_first_match_witness:
  "rglob farm ''/data'' ''Device*PMU*.csv'' = [''/data/Device_Data_PMU_a.csv'', ''/data/Device_Data_PMU_b.csv''] \<and>
   get_meter_data farm ''/data'' =
     Inr \<lparr>index_name = Some ''Timestamp'',
          fcols = [''GMS Energy Export (kWh)''],
          frows = [(Txt ''2020-01-01 00:00'', [Txt ''100'']), (Txt ''2020-01-01 00:10'', [Txt ''120''])]\<rparr>"
proof -
  have h: "rglob farm ''/data'' ''Device*PMU*.csv''
             = ''/data/Device_Data_PMU_a.csv'' # [''/data/Device_Data_PMU_b.csv'']"
    by code_simp
  have rd: "read_csv farm (Some ''/data/Device_Data_PMU_a.csv'') 10 meter_columns date_and_time =
     Inr \<lparr>index_name = Some date_and_time,
          fcols = [''GMS Energy Export (kWh)''],
          frows = [(Txt ''2020-01-01 00:00'', [Txt ''100'']), (Txt ''2020-01-01 00:10'', [Txt ''120''])]\<rparr>"
    by code_simp
  from meter_first_match [THEN conjunct2, THEN conjunct1, rule_format, OF h] h rd
  show ?thesis by simp
qed

subsection \<open>C10: the plant object gets no reanalysis data\<close>

text \<open>
  C10. The run that returns the plant object is the run that returns the data frames,
  followed by the call of \<^verbatim>\<open>PlantData\<close> on the four tables and an empty reanalysis
  dictionary: the dictionary of the data-frame result does not occur in the call.
\<close>

theorem plantdata_ignores_reanalysis:
  "prepare L fs root asset_name out year ''plantdata'' extract =
     (case prepare L fs root asset_name out year ''dataframes'' extract of
        (Inr (Dataframes scada_df meter_df curtail_df asset_df reanalysis_dict), written) \<Rightarrow>
          (case PlantData L (plantdata_call out scada_df meter_df curtail_df asset_df) of
             Inl e \<Rightarrow> (Inl e, written)
           | Inr plantdata \<Rightarrow> (Inr (Plant plantdata), written))
      | (other, written) \<Rightarrow> (other, written))"
  by (simp add: prepare_def plantdata_call_def Let_def split: sum.splits prod.splits option.splits)

lemma farm_dataframes:
  "(case prepare symbolic farm (PathObj ''/zenodo'') ''Kelmarsh'' ''/data'' None ''dataframes'' True of
      (Inr (Dataframes s m c a r), w) \<Rightarrow> map fst r = [''era5''] | _ \<Rightarrow> False)"
  by code_simp

theorem plantdata_ignores_reanalysis_witness:
  "\<exists>s m c a r w.
     prepare symbolic farm (PathObj ''/zenodo'') ''Kelmarsh'' ''/data'' None ''dataframes'' True
       = (Inr (Dataframes s m c a r), w) \<and>
     map fst r = [''era5''] \<and>
     prepare symbolic farm (PathObj ''/zenodo'') ''Kelmarsh'' ''/data'' None ''plantdata'' True
       = (Inr (Plant (plantdata_call ''/data'' s m c a)), w) \<and>
     kw_reanalysis (plantdata_call ''/data'' s m c a) = []"
proof -
  from farm_dataframes obtain s m c a r w where
    run: "prepare symbolic farm (PathObj ''/zenodo'') ''Kelmarsh'' ''/data'' None ''dataframes'' True
            = (Inr (Dataframes s m c a r), w)"
    and keys: "map fst r = [''era5'']"
    by (auto split: prod.splits sum.splits result.splits)
  have pd: "PlantData symbolic = Inr"
    by (simp add: symbolic_def)
  have "prepare symbolic farm (PathObj ''/zenodo'') ''Kelmarsh'' ''/data'' None ''plantdata'' True
          = (Inr (Plant (plantdata_call ''/data'' s m c a)), w)"
    by (subst plantdata_ignores_reanalysis) (simp add: run pd)
  with run keys show ?thesis
    by (simp add: plantdata_call_def)
qed

subsection \<open>C3: the computed fields of the metadata document\<close>

lemma document_constant_fields:
  "path \<noteq> [''latitude''] \<Longrightarrow> path \<noteq> [''longitude''] \<Longrightarrow> path \<noteq> [''capacity''] \<Longrightarrow>
     document (metadata_document lat lon cap) path = document (metadata_document lat' lon' cap') path"
proof (cases path)
  case Nil
  then show ?thesis by (simp add: metadata_document_def)
next
  case (Cons k ks)
  assume "path \<noteq> [''latitude'']" "path \<noteq> [''longitude'']" "path \<noteq> [''capacity'']"
  with Cons show ?thesis
    by (cases ks) (simp_all add: metadata_document_def)
qed

lemma asset_json_Inr:
  assumes "asset_json L asset_df = Inr doc"
  obtains lat lon rated where
    "column_mean L asset_df ''Latitude'' = Inr lat"
    "column_mean L asset_df ''Longitude'' = Inr lon"
    "column_sum L asset_df ''Rated power (kW)'' = Inr rated"
    "doc = metadata_document (str_float L lat) (str_float L lon) (str_float L (div_1000 L rated))"
  using assms by (auto simp: asset_json_def split: sum.splits)

text \<open>
  C3. When the metadata document is built from an asset table, the means of the
  \<^verbatim>\<open>Latitude\<close> and \<^verbatim>\<open>Longitude\<close> columns and the sum of the
  \<^verbatim>\<open>Rated power (kW)\<close> column exist; the document's \<^verbatim>\<open>latitude\<close> and
  \<^verbatim>\<open>longitude\<close> are the texts of the two means and its \<^verbatim>\<open>capacity\<close> is the text
  of the sum divided by 1000; at every other path the document holds what the fixed
  template holds; and any asset table with the same three aggregates gives the same
  document. The arithmetic is the library's, whatever it is.
\<close>

theorem metadata_aggregates:
  assumes "asset_json L asset_df = Inr doc"
  shows "\<exists>lat lon rated.
           column_mean L asset_df ''Latitude'' = Inr lat \<and>
           column_mean L asset_df ''Longitude'' = Inr lon \<and>
           column_sum L asset_df ''Rated power (kW)'' = Inr rated \<and>
           document doc [''latitude''] = Some (Text (str_float L lat)) \<and>
           document doc [''longitude''] = Some (Text (str_float L lon)) \<and>
           document doc [''capacity''] = Some (Text (str_float L (div_1000 L rated))) \<and>
           (\<forall>path. path \<noteq> [''latitude''] \<and> path \<noteq> [''longitude''] \<and> path \<noteq> [''capacity''] \<longrightarrow>
              document doc path = document (metadata_document [] [] []) path) \<and>
           (\<forall>other. column_mean L other ''Latitude'' = Inr lat \<and>
                    column_mean L other ''Longitude'' = Inr lon \<and>
                    column_sum L other ''Rated power (kW)'' = Inr rated \<longrightarrow>
              asset_json L other = Inr doc)"
proof -
  from assms obtain lat lon rated where
    a: "column_mean L asset_df ''Latitude'' = Inr lat"
       "column_mean L asset_df ''Longitude'' = Inr lon"
       "column_sum L asset_df ''Rated power (kW)'' = Inr rated"
    and doc: "doc = metadata_document (str_float L lat) (str_float L lon) (str_float L (div_1000 L rated))"
    by (rule asset_json_Inr)
  have f: "document doc [''latitude''] = Some (Text (str_float L lat))"
       "document doc [''longitude''] = Some (Text (str_float L lon))"
       "document doc [''capacity''] = Some (Text (str_float L (div_1000 L rated)))"
    by (simp_all add: doc metadata_document_def)
  have c: "\<forall>path. path \<noteq> [''latitude''] \<and> path \<noteq> [''longitude''] \<and> path \<noteq> [''capacity''] \<longrightarrow>
              document doc path = document (metadata_document [] [] []) path"
    unfolding doc by (auto intro: document_constant_fields)
  have d: "\<forall>other. column_mean L other ''Latitude'' = Inr lat \<and>
                    column_mean L other ''Longitude'' = Inr lon \<and>
                    column_sum L other ''Rated power (kW)'' = Inr rated \<longrightarrow>
              asset_json L other = Inr doc"
    by (simp add: asset_json_def doc)
  from a f c d show ?thesis by blast
qed

lemma farm_asset:
  "(case read_asset farm ''/data'' ''Kelmarsh'' of
      Inr a \<Rightarrow>
        (case asset_json symbolic a of
           Inr doc \<Rightarrow>
             column_mean symbolic a ''Latitude'' = Inr (Mean [Txt ''52.4'', Txt ''52.5'']) \<and>
             column_mean symbolic a ''Longitude'' = Inr (Mean [Txt ''-0.94'', Txt ''-0.95'']) \<and>
             column_sum symbolic a ''Rated power (kW)'' = Inr (Sum [Txt ''2050'', Txt ''2050''])
         | Inl e \<Rightarrow> False)
    | Inl e \<Rightarrow> False)"
  by code_simp

theorem metadata_aggregates_witness:
  "\<exists>a doc. read_asset farm ''/data'' ''Kelmarsh'' = Inr a \<and>
     asset_json symbolic a = Inr doc \<and>
     document doc [''latitude''] = Some (Text ''mean 52.4 52.5'') \<and>
     document doc [''longitude''] = Some (Text ''mean -0.94 -0.95'') \<and>
     document doc [''capacity''] = Some (Text ''sum 2050 2050 / 1000'') \<and>
     document doc [''scada'', ''asset_id''] = Some (Text ''Turbine'')"
proof -
  from farm_asset obtain a doc where
    a: "read_asset farm ''/data'' ''Kelmarsh'' = Inr a"
    and doc: "asset_json symbolic a = Inr doc"
    and lat: "column_mean symbolic a ''Latitude'' = Inr (Mean [Txt ''52.4'', Txt ''52.5''])"
    and lon: "column_mean symbolic a ''Longitude'' = Inr (Mean [Txt ''-0.94'', Txt ''-0.95''])"
    and rated: "column_sum symbolic a ''Rated power (kW)'' = Inr (Sum [Txt ''2050'', Txt ''2050''])"
    by (auto split: sum.splits)
  have r: "str_float symbolic = render" "div_1000 symbolic = Div1000"
    by (simp_all add: symbolic_def)
  from metadata_aggregates [OF doc] lat lon rated
  have "document doc [''latitude''] = Some (Text (render (Mean [Txt ''52.4'', Txt ''52.5''])))"
    and "document doc [''longitude''] = Some (Text (render (Mean [Txt ''-0.94'', Txt ''-0.95''])))"
    and "document doc [''capacity''] = Some (Text (render (Div1000 (Sum [Txt ''2050'', Txt ''2050'']))))"
    and "document doc [''scada'', ''asset_id''] = document (metadata_document [] [] []) [''scada'', ''asset_id'']"
    by (auto simp: r)
  with a doc show ?thesis
    by (simp add: metadata_document_def cell_text_def)
qed

subsection \<open>C9: the two metadata files\<close>

lemma prepare_Inr:
  assumes "prepare L fs root asset_name out year rv extract = (Inr r, written)"
  obtains s m c asset_df rd doc where
    "load_tables L fs root asset_name out year extract = Inr (s, m, c, asset_df, rd)"
    "asset_json L asset_df = Inr doc"
    "written = [(joinpath out ''plant_meta.json'', json_dump L doc 2),
                (joinpath out ''plant_meta.yml'', yaml_dump L doc)]"
  using assms
  by (auto simp: prepare_def Let_def split: sum.splits prod.splits option.splits if_splits)

text \<open>
  C9. A run that returns a result has written exactly two files, in this order:
  \<^verbatim>\<open>plant_meta.json\<close>, the JSON text of the metadata document with indent 2, and
  \<^verbatim>\<open>plant_meta.yml\<close>, the YAML text of the same document, which is the one built
  from the asset table of the run. For every pair of readers that give back the content
  of what the two serialisers wrote, reading the two files gives documents with the
  same content.
\<close>

theorem metadata_artifacts:
  assumes "prepare L fs root asset_name out year rv extract = (Inr r, written)"
  shows "\<exists>s m c asset_df rd doc.
           load_tables L fs root asset_name out year extract = Inr (s, m, c, asset_df, rd) \<and>
           asset_json L asset_df = Inr doc \<and>
           written = [(joinpath out ''plant_meta.json'', json_dump L doc 2),
                      (joinpath out ''plant_meta.yml'', yaml_dump L doc)] \<and>
           (\<forall>json_load yaml_load.
              (\<forall>d. document (json_load (json_dump L d 2)) = document d) \<and>
              (\<forall>d. document (yaml_load (yaml_dump L d)) = document d) \<longrightarrow>
              document (json_load (snd (written ! 0))) = document doc \<and>
              document (yaml_load (snd (written ! 1))) = document doc)"
proof -
  from assms obtain s m c asset_df rd doc where
    l: "load_tables L fs root asset_name out year extract = Inr (s, m, c, asset_df, rd)"
    and d: "asset_json L asset_df = Inr doc"
    and w: "written = [(joinpath out ''plant_meta.json'', json_dump L doc 2),
                       (joinpath out ''plant_meta.yml'', yaml_dump L doc)]"
    by (rule prepare_Inr)
  have "\<forall>json_load yaml_load.
              (\<forall>d. document (json_load (json_dump L d 2)) = document d) \<and>
              (\<forall>d. document (yaml_load (yaml_dump L d)) = document d) \<longrightarrow>
              document (json_load (snd (written ! 0))) = document doc \<and>
              document (yaml_load (snd (written ! 1))) = document doc"
    by (simp add: w)
  with l d w show ?thesis by blast
qed

lemma farm_succeeds:
  "\<not> isl (fst (prepare symbolic farm (PathObj ''/zenodo'') ''Kelmarsh'' ''/data'' (Some 2020) ''plantdata'' True))"
  by code_simp

theorem metadata_artifacts_witness:
  "\<exists>r written.
     prepare symbolic farm (PathObj ''/zenodo'') ''Kelmarsh'' ''/data'' (Some 2020) ''plantdata'' True
       = (Inr r, written) \<and>
     map fst written = [''/data/plant_meta.json'', ''/data/plant_meta.yml''] \<and>
     (\<exists>doc. snd (written ! 0) = JsonText 2 doc \<and> snd (written ! 1) = YamlText doc) \<and>
     document (load (snd (written ! 0))) = document (load (snd (written ! 1)))"
proof -
  from farm_succeeds obtain r written where
    run: "prepare symbolic farm (PathObj ''/zenodo'') ''Kelmarsh'' ''/data'' (Some 2020) ''plantdata'' True
            = (Inr r, written)"
    by (cases "prepare symbolic farm (PathObj ''/zenodo'') ''Kelmarsh'' ''/data'' (Some 2020) ''plantdata'' True";
        cases "fst (prepare symbolic farm (PathObj ''/zenodo'') ''Kelmarsh'' ''/data'' (Some 2020) ''plantdata'' True)")
       auto
  from metadata_artifacts [OF run] obtain doc where
    w: "written = [(joinpath ''/data'' ''plant_meta.json'', json_dump symbolic doc 2),
                   (joinpath ''/data'' ''plant_meta.yml'', yaml_dump symbolic doc)]"
    and rt: "\<forall>json_load yaml_load.
              (\<forall>d. document (json_load (json_dump symbolic d 2)) = document d) \<and>
              (\<forall>d. document (yaml_load (yaml_dump symbolic d)) = document d) \<longrightarrow>
              document (json_load (snd (written ! 0))) = document doc \<and>
              document (yaml_load (snd (written ! 1))) = document doc"
    by blast
  have dumps: "json_dump symbolic = (\<lambda>d indent. JsonText indent d)" "yaml_dump symbolic = YamlText"
    by (simp_all add: symbolic_def)
  have "document (load (snd (written ! 0))) = document doc \<and>
        document (load (snd (written ! 1))) = document doc"
    using rt [rule_format, of load load] by (simp add: dumps)
  with run w show ?thesis
    by (simp add: dumps joinpath_def)
qed

subsection \<open>C4: the reanalysis dictionary\<close>

lemma reanalysis_keys:
  "read_reanalysis fs path asset_name = Inr d \<Longrightarrow> set (map fst d) \<subseteq> {''merra2'', ''era5''}"
  by (auto simp: read_reanalysis_def Let_def split: if_splits sum.splits)

text \<open>
  C4. On the farm whose folder holds the ERA5 file and the monthly MERRA2 file, the
  reanalysis dictionary \<^verbatim>\<open>prepare\<close> returns has the key \<^verbatim>\<open>era5\<close> only: the
  monthly file exists and is read, and no key stands for it.
\<close>

theorem monthly_reanalysis_dropped:
  "monthly_path = joinpath ''/data'' (''merra2_monthly_10m/'' @ ''Kelmarsh'' @ ''_merra2_monthly_10m.csv'') \<and>
   exists farm_monthly monthly_path \<and>
   (case prepare symbolic farm_monthly (PathObj ''/zenodo'') ''Kelmarsh'' ''/data'' None ''dataframes'' True of
      (Inr (Dataframes s m c a r), w) \<Rightarrow> map fst r = [''era5'']
    | _ \<Rightarrow> False)"
  by code_simp

subsection \<open>C1 and C2: the frame built by get\_scada\_df\<close>

lemma select_columns_Inr:
  assumes "select_columns c u i = Inr f" and "u \<noteq> []"
  shows "set u \<subseteq> set (names c)" and "i \<in> set u"
    and "index_name f = Some i"
    and "fcols f = filter (\<lambda>n. n \<in> set u \<and> n \<noteq> i) (unique (names c))"
    and "frows f = map (\<lambda>r. (cell_at (names c) r i, map (cell_at (names c) r) (fcols f))) (lines c)"
proof -
  have ok: "\<not> (\<not> set u \<subseteq> set (unique (names c)) \<or> i \<notin> set u)"
    using assms unfolding select_columns_def Let_def by (auto split: if_splits)
  then show "set u \<subseteq> set (names c)" and "i \<in> set u" by simp_all
  from ok assms have f: "f = \<lparr>index_name = Some i,
        fcols = filter (\<lambda>n. n \<in> set u \<and> n \<noteq> i) (unique (names c)),
        frows = map (\<lambda>r. (cell_at (names c) r i,
                     map (cell_at (names c) r) (filter (\<lambda>n. n \<in> set u \<and> n \<noteq> i) (unique (names c)))))
                    (lines c)\<rparr>"
    unfolding select_columns_def Let_def by simp
  show "index_name f = Some i" by (subst f) simp
  show c: "fcols f = filter (\<lambda>n. n \<in> set u \<and> n \<noteq> i) (unique (names c))" by (subst f) simp
  show "frows f = map (\<lambda>r. (cell_at (names c) r i, map (cell_at (names c) r) (fcols f))) (lines c)"
    unfolding c by (subst f) simp
qed

lemma select_columns_cols:
  assumes "select_columns c u i = Inr f"
  shows "set (fcols f) = set u - {i}"
proof (cases "u = []")
  case True
  with assms show ?thesis by (auto simp: select_columns_def)
next
  case False
  from select_columns_Inr(1,4) [OF assms False] show ?thesis by auto
qed

lemma read_csv_Inr:
  assumes "read_csv fs p k u i = Inr f"
  obtains path cf c where "p = Some path" "file_at fs path = Some cf" "body cf k = Inr c"
    "select_columns c u i = Inr f"
  using assms by (auto simp: read_csv_def split: option.splits sum.splits)

lemma read_csv_rows:
  assumes "read_csv fs (path_of p) 9 u date_and_time = Inr f" and "u \<noteq> []"
  shows "frows f = map (\<lambda>(c, r). (cell_at (names c) r date_and_time, map (cell_at (names c) r) (fcols f)))
                       (file_lines fs p)"
proof -
  from assms(1) obtain path cf c where
    p: "path_of p = Some path" "file_at fs path = Some cf" "body cf 9 = Inr c"
    and s: "select_columns c u date_and_time = Inr f"
    by (rule read_csv_Inr)
  have "file_lines fs p = map (Pair c) (lines c)"
    by (simp add: file_lines_def body_csv_def p)
  then show ?thesis
    by (simp add: select_columns_Inr(5) [OF s assms(2)] comp_def)
qed

lemma read_csv_cols:
  assumes "read_csv fs p k u i = Inr f"
  shows "set (fcols f) = set u - {i}"
proof -
  from assms obtain path cf c where s: "select_columns c u i = Inr f"
    by (rule read_csv_Inr)
  then show ?thesis by (rule select_columns_cols)
qed

lemma realign:
  "set cols \<subseteq> set own \<Longrightarrow> map (cell_at own (map g own)) cols = map g cols"
  by (auto simp: cell_at_def map_of_zip_map)

lemma concat_frames_cols:
  assumes "concat_frames fs = Inr f"
  shows "set (fcols f) = (\<Union>g\<in>set fs. set (fcols g))"
  by (simp add: concat_frames_Inr(2) [OF assms])

lemma concat_frames_same_cols:
  assumes "concat_frames fs = Inr f" and "\<forall>g\<in>set fs. set (fcols g) = S"
  shows "set (fcols f) = S"
proof -
  have "fs \<noteq> []" using assms(1) by (rule concat_frames_Inr(1))
  with assms(2) show ?thesis
    by (cases fs) (auto simp: concat_frames_cols [OF assms(1)])
qed

lemma concat_frames_index_name:
  assumes "concat_frames fs = Inr f" and "\<forall>g\<in>set fs. index_name g = n"
  shows "index_name f = n"
proof -
  have ne: "fs \<noteq> []" using assms(1) by (rule concat_frames_Inr(1))
  then have h: "index_name (hd fs) = n" using assms(2) by (cases fs) auto
  have "list_all (\<lambda>g. index_name g = index_name (hd fs)) fs"
    using assms(2) h by (simp add: list_all_iff)
  with concat_frames_nonempty [OF ne] assms(1) h show ?thesis
    by auto
qed

text \<open>Frames whose rows are computed from sources keep that shape under concatenation.\<close>

lemma concat_frames_rows:
  assumes c: "concat_frames fs = Inr f"
    and cols: "\<forall>g\<in>set fs. set (fcols g) = S"
    and rows: "list_all2 (\<lambda>g xs. frows g = map (\<lambda>x. (i x, map (h x) (fcols g))) xs) fs srcs"
  shows "frows f = map (\<lambda>x. (i x, map (h x) (fcols f))) (concat srcs)"
proof -
  have S: "set (fcols f) = S" using c cols by (rule concat_frames_same_cols)
  have one: "map (\<lambda>(j, r). (j, map (cell_at (fcols g) r) (fcols f))) (frows g)
               = map (\<lambda>x. (i x, map (h x) (fcols f))) xs"
    if g: "g \<in> set fs" and r: "frows g = map (\<lambda>x. (i x, map (h x) (fcols g))) xs" for g xs
  proof -
    have "set (fcols f) \<subseteq> set (fcols g)" using S cols g by simp
    then show ?thesis
      by (simp add: r comp_def realign)
  qed
  have "set gs \<subseteq> set fs \<Longrightarrow>
        map (\<lambda>g. map (\<lambda>(j, r). (j, map (cell_at (fcols g) r) (fcols f))) (frows g)) gs
          = map (\<lambda>xs. map (\<lambda>x. (i x, map (h x) (fcols f))) xs) srcs"
    if "list_all2 (\<lambda>g xs. frows g = map (\<lambda>x. (i x, map (h x) (fcols g))) xs) gs srcs" for gs
    using that
  proof (induction gs srcs rule: list_all2_induct)
    case Nil
    then show ?case by simp
  next
    case (Cons g gs xs srcs)
    from Cons.prems have g: "g \<in> set fs" and sub: "set gs \<subseteq> set fs" by simp_all
    show ?case
      using one [OF g Cons.hyps(1)] Cons.IH [OF sub] by simp
  qed
  from this [OF rows]
  have "map (\<lambda>g. map (\<lambda>(j, r). (j, map (cell_at (fcols g) r) (fcols f))) (frows g)) fs
          = map (\<lambda>xs. map (\<lambda>x. (i x, map (h x) (fcols f))) xs) srcs"
    by simp
  then show ?thesis
    by (simp add: concat_frames_Inr(3) [OF c] map_concat)
qed


lemma cell_at_map: "n \<in> set cols \<Longrightarrow> cell_at cols (map g cols) n = g n"
  by (simp add: cell_at_def map_of_zip_map)

lemma map_zip_same: "map f (zip xs (map g xs)) = map (\<lambda>c. f (c, g c)) xs"
  by (induction xs) simp_all

lemma set_column_rows:
  assumes "frows w = map (\<lambda>x. (i x, map (h x) (fcols w))) xs"
  shows "frows (set_column w n v)
           = map (\<lambda>x. (i x, map (\<lambda>c. if c = n then v else h x c) (fcols (set_column w n v)))) xs"
proof (cases "n \<in> set (fcols w)")
  case True
  then show ?thesis
    by (simp add: set_column_def assms comp_def map_zip_same)
next
  case False
  then have "map (\<lambda>c. if c = n then v else h x c) (fcols w) = map (h x) (fcols w)" for x
    by (intro map_cong) auto
  with False show ?thesis
    by (simp add: set_column_def assms comp_def)
qed

lemma set_column_cols: "set (fcols (set_column w n v)) = insert n (set (fcols w))"
  by (auto simp: set_column_def)

lemma tag_turbine_facts:
  "set (fcols (tag_turbine w t)) = insert ''Turbine'' (set (fcols w))"
  "index_name (tag_turbine w t) = Some ''Timestamp''"
  "frows w = map (\<lambda>x. (i x, map (h x) (fcols w))) xs \<Longrightarrow>
     frows (tag_turbine w t)
       = map (\<lambda>x. (i x, map (\<lambda>c. if c = ''Turbine'' then t else h x c) (fcols (tag_turbine w t)))) xs"
proof -
  show "set (fcols (tag_turbine w t)) = insert ''Turbine'' (set (fcols w))"
    by (simp add: tag_turbine_def set_column_cols)
  show "index_name (tag_turbine w t) = Some ''Timestamp''"
    by (simp add: tag_turbine_def)
  assume "frows w = map (\<lambda>x. (i x, map (h x) (fcols w))) xs"
  from set_column_rows [OF this, of "''Turbine''" t]
  show "frows (tag_turbine w t)
       = map (\<lambda>x. (i x, map (\<lambda>c. if c = ''Turbine'' then t else h x c) (fcols (tag_turbine w t)))) xs"
    by (simp add: tag_turbine_def)
qed

lemma scada_wt_Inr:
  assumes "scada_wt fs hs cols t = Inr w"
  obtains files frames wt where
    "turbine_files hs t = Inr files"
    "list_all2 (\<lambda>f fr. read_csv fs (path_of f) 9 cols date_and_time = Inr fr) files frames"
    "concat_frames frames = Inr wt"
    "w = tag_turbine wt t"
  using assms
  by (auto simp: scada_wt_def traverse_Inr_iff split: sum.splits)

lemma frames_rows:
  "list_all2 (\<lambda>f fr. read_csv fs (path_of f) 9 cols date_and_time = Inr fr) files frames
     \<Longrightarrow> cols \<noteq> []
     \<Longrightarrow> list_all2 (\<lambda>g xs. frows g = map (\<lambda>x. (cell_at (names (fst x)) (snd x) date_and_time,
                                               map (cell_at (names (fst x)) (snd x)) (fcols g))) xs)
                   frames (map (file_lines fs) files)"
  by (induction files frames rule: list_all2_induct) (simp_all add: read_csv_rows split_def)

lemma frames_cols:
  "list_all2 (\<lambda>f fr. read_csv fs (path_of f) 9 cols date_and_time = Inr fr) files frames
     \<Longrightarrow> \<forall>g\<in>set frames. set (fcols g) = set cols - {date_and_time}"
  by (induction files frames rule: list_all2_induct) (simp_all add: read_csv_cols)

text \<open>The sources of a turbine's rows: the body lines of its files, in reading order.\<close>

lemma scada_wt_facts:
  assumes "scada_wt fs hs cols t = Inr w"
  shows "set (fcols w) = insert ''Turbine'' (set cols - {date_and_time})"
    and "index_name w = Some ''Timestamp''"
    and "files_of hs t \<noteq> []"
    and "cols \<noteq> [] \<Longrightarrow>
           frows w = map (\<lambda>x. scada_row (fcols w) t (fst x) (snd x))
                         (concat (map (file_lines fs) (files_of hs t)))"
proof -
  from assms obtain files frames wt where
    f: "turbine_files hs t = Inr files"
    and r: "list_all2 (\<lambda>f fr. read_csv fs (path_of f) 9 cols date_and_time = Inr fr) files frames"
    and c: "concat_frames frames = Inr wt"
    and w: "w = tag_turbine wt t"
    by (rule scada_wt_Inr)
  have fo: "files_of hs t = files" by (simp add: files_of_def f)
  have ne: "frames \<noteq> []" using c by (rule concat_frames_Inr(1))
  with r show "files_of hs t \<noteq> []" by (auto simp: fo)
  have "set (fcols wt) = set cols - {date_and_time}"
    using c frames_cols [OF r] by (rule concat_frames_same_cols)
  then show "set (fcols w) = insert ''Turbine'' (set cols - {date_and_time})"
    by (simp add: w tag_turbine_facts(1))
  show "index_name w = Some ''Timestamp''"
    by (simp add: w tag_turbine_facts(2))
  assume "cols \<noteq> []"
  from concat_frames_rows [OF c frames_cols [OF r] frames_rows [OF r this]]
  have "frows wt = map (\<lambda>x. (cell_at (names (fst x)) (snd x) date_and_time,
                              map (cell_at (names (fst x)) (snd x)) (fcols wt)))
                       (concat (map (file_lines fs) files))" .
  from tag_turbine_facts(3) [OF this, of t]
  show "frows w = map (\<lambda>x. scada_row (fcols w) t (fst x) (snd x))
                      (concat (map (file_lines fs) (files_of hs t)))"
    by (simp add: w fo scada_row_def)
qed

lemma get_scada_df_Inr:
  assumes "get_scada_df fs hs uc = Inr out"
  obtains ts wts where
    "turbines hs = Inr ts"
    "list_all2 (\<lambda>t w. scada_wt fs hs (selected uc) t = Inr w) ts wts"
    "concat_frames wts = Inr out"
  using assms
  by (auto simp: get_scada_df_def selected_def Let_def traverse_Inr_iff split: sum.splits)

lemma turbines_Inr:
  "turbines hs = Inr ts \<Longrightarrow> ts = turbine_list hs \<and> count_list (hcolumns hs) (Txt ''Turbine'') = 1"
  by (auto simp: turbines_def turbine_list_def split: nat.splits)

lemma scada_lst_facts:
  assumes "list_all2 (\<lambda>t w. scada_wt fs hs cols t = Inr w) ts wts"
  shows "\<forall>w\<in>set wts. set (fcols w) = insert ''Turbine'' (set cols - {date_and_time})"
    and "\<forall>w\<in>set wts. index_name w = Some ''Timestamp''"
    and "\<forall>t\<in>set ts. files_of hs t \<noteq> []"
    and "cols \<noteq> [] \<Longrightarrow>
           list_all2 (\<lambda>w ys. frows w = map (\<lambda>y. (cell_at (names (fst (snd y))) (snd (snd y)) date_and_time,
                                   map (\<lambda>c. if c = ''Turbine'' then fst y
                                            else cell_at (names (fst (snd y))) (snd (snd y)) c) (fcols w))) ys)
             wts (map (\<lambda>t. map (Pair t) (concat (map (file_lines fs) (files_of hs t)))) ts)"
  using assms
  by (induction ts wts rule: list_all2_induct)
     (simp_all add: scada_wt_facts(1,2,3) scada_wt_facts(4) scada_row_def comp_def)

lemma file_rows_concat:
  "map (\<lambda>y. scada_row cols (fst y) (fst (snd y)) (snd (snd y)))
       (concat (map (\<lambda>t. map (Pair t) (concat (map (file_lines fs) (F t)))) ts))
     = concat (map (\<lambda>t. concat (map (file_rows fs cols t) (F t))) ts)"
proof -
  have "file_rows fs cols t = (\<lambda>p. map (\<lambda>x. scada_row cols t (fst x) (snd x)) (file_lines fs p))" for t
    by (rule ext) (simp add: file_rows_def split_def)
  then show ?thesis
    by (simp add: map_concat comp_def)
qed

lemma get_scada_df_facts:
  assumes "get_scada_df fs hs uc = Inr out"
  shows "set (fcols out) = insert ''Turbine'' (set (selected uc) - {date_and_time})"
    and "index_name out = Some ''Timestamp''"
    and "\<forall>t\<in>set (turbine_list hs). files_of hs t \<noteq> []"
    and "count_list (hcolumns hs) (Txt ''Turbine'') = 1"
    and "selected uc \<noteq> [] \<Longrightarrow>
           frows out = concat (map (\<lambda>t. concat (map (file_rows fs (fcols out) t) (files_of hs t)))
                                   (turbine_list hs))"
proof -
  from assms obtain ts wts where
    t: "turbines hs = Inr ts"
    and l: "list_all2 (\<lambda>t w. scada_wt fs hs (selected uc) t = Inr w) ts wts"
    and c: "concat_frames wts = Inr out"
    by (rule get_scada_df_Inr)
  have ts: "ts = turbine_list hs" and "count_list (hcolumns hs) (Txt ''Turbine'') = 1"
    using turbines_Inr [OF t] by simp_all
  then show "count_list (hcolumns hs) (Txt ''Turbine'') = 1" by simp
  note f = scada_lst_facts [OF l]
  from c f(1) show "set (fcols out) = insert ''Turbine'' (set (selected uc) - {date_and_time})"
    by (rule concat_frames_same_cols)
  from c f(2) show "index_name out = Some ''Timestamp''"
    by (rule concat_frames_index_name)
  show "\<forall>t\<in>set (turbine_list hs). files_of hs t \<noteq> []"
    using f(3) ts by simp
  assume "selected uc \<noteq> []"
  from concat_frames_rows [OF c f(1) f(4) [OF this]]
  have "frows out = map (\<lambda>y. scada_row (fcols out) (fst y) (fst (snd y)) (snd (snd y)))
                        (concat (map (\<lambda>t. map (Pair t) (concat (map (file_lines fs) (files_of hs t)))) ts))"
    by (simp add: scada_row_def)
  then show "frows out = concat (map (\<lambda>t. concat (map (file_rows fs (fcols out) t) (files_of hs t)))
                                   (turbine_list hs))"
    by (simp only: file_rows_concat ts)
qed


lemma file_rows_index: "map fst (file_rows fs cols t p) = body_index fs p"
  by (simp add: file_rows_def file_lines_def body_index_def scada_row_def split_def comp_def
           split: option.splits)

lemma file_rows_length: "length (file_rows fs cols t p) = body_rows fs p"
  unfolding body_rows_def file_rows_index [of fs cols t p, symmetric] by simp

lemma file_lines_length: "length (file_lines fs p) = length (body_index fs p)"
  by (simp add: file_lines_def body_index_def split: option.splits)

lemma file_rows_column:
  "n \<in> set cols \<Longrightarrow>
     map (\<lambda>(i, r). cell_at cols r n) (file_rows fs cols t p)
       = map (\<lambda>x. if n = ''Turbine'' then t else cell_at (names (fst x)) (snd x) n) (file_lines fs p)"
  by (simp add: file_rows_def scada_row_def split_def comp_def cell_at_map)

lemma constant_column:
  "concat (map (\<lambda>p. map (\<lambda>x. t) (file_lines fs p)) ps)
     = replicate (length (concat (map (body_index fs) ps))) t"
  by (induction ps) (simp_all add: map_replicate_const file_lines_length replicate_add)

lemma get_scada_df_views:
  assumes "get_scada_df fs hs uc = Inr out" and "selected uc \<noteq> []"
  shows "map fst (frows out) = concat (map (turbine_index fs hs) (turbine_list hs))"
    and "n \<in> set (fcols out) \<Longrightarrow>
           frame_column out n
             = concat (map (\<lambda>t. concat (map (\<lambda>p. map (\<lambda>x. if n = ''Turbine'' then t
                                                           else cell_at (names (fst x)) (snd x) n)
                                                    (file_lines fs p))
                                          (files_of hs t)))
                           (turbine_list hs))"
    and "frame_column out ''Turbine''
           = concat (map (\<lambda>t. replicate (length (turbine_index fs hs t)) t) (turbine_list hs))"
proof -
  note f = get_scada_df_facts [OF assms(1)]
  note r = f(5) [OF assms(2)]
  have "map fst (frows out)
          = concat (map (\<lambda>t. concat (map (\<lambda>p. map fst (file_rows fs (fcols out) t p)) (files_of hs t)))
                        (turbine_list hs))"
    by (subst r) (simp add: map_concat comp_def)
  then show "map fst (frows out) = concat (map (turbine_index fs hs) (turbine_list hs))"
    by (simp add: file_rows_index turbine_index_def [abs_def])
  have col: "frame_column out n
          = concat (map (\<lambda>t. concat (map (\<lambda>p. map (\<lambda>x. if n = ''Turbine'' then t
                                                           else cell_at (names (fst x)) (snd x) n)
                                                    (file_lines fs p))
                                          (files_of hs t)))
                           (turbine_list hs))" if n: "n \<in> set (fcols out)" for n
  proof -
    have "frame_column out n
            = concat (map (\<lambda>t. concat (map (\<lambda>p. map (\<lambda>(i, r). cell_at (fcols out) r n)
                                                     (file_rows fs (fcols out) t p))
                                            (files_of hs t)))
                          (turbine_list hs))"
      unfolding frame_column_def by (subst r) (simp add: map_concat comp_def)
    then show ?thesis
      by (simp add: file_rows_column [OF n])
  qed
  then show "n \<in> set (fcols out) \<Longrightarrow>
           frame_column out n
             = concat (map (\<lambda>t. concat (map (\<lambda>p. map (\<lambda>x. if n = ''Turbine'' then t
                                                           else cell_at (names (fst x)) (snd x) n)
                                                    (file_lines fs p))
                                          (files_of hs t)))
                           (turbine_list hs))" .
  have "''Turbine'' \<in> set (fcols out)" by (simp add: f(1))
  from col [OF this]
  show "frame_column out ''Turbine''
           = concat (map (\<lambda>t. replicate (length (turbine_index fs hs t)) t) (turbine_list hs))"
    by (simp add: constant_column turbine_index_def)
qed

lemma group_mset:
  "distinct ts \<Longrightarrow>
     mset (concat (map (\<lambda>t. filter (\<lambda>r. k r = t) xs) ts)) = mset (filter (\<lambda>r. k r \<in> set ts) xs)"
proof (induction ts)
  case Nil
  then show ?case by simp
next
  case (Cons t ts)
  have "mset (filter (\<lambda>r. k r = t) xs) + mset (filter (\<lambda>r. k r \<in> set ts) xs)
          = mset (filter (\<lambda>r. k r \<in> set (t # ts)) xs)"
    using Cons.prems by (induction xs) auto
  with Cons show ?case by simp
qed

lemma group_unique:
  "mset (concat (map (\<lambda>t. filter (\<lambda>r. k r = t) xs) (unique (map k xs)))) = mset xs"
  by (simp add: group_mset)

lemma mset_concat_map_cong:
  "mset ys = mset xs \<Longrightarrow> mset (concat (map g ys)) = mset (concat (map g xs))"
proof -
  assume e: "mset ys = mset xs"
  have "mset (concat (map g zs)) = (\<Sum>z\<in>#mset zs. mset (g z))" for zs
    by (induction zs) simp_all
  with e show ?thesis by simp
qed

lemma turbine_files_single:
  assumes "count_list (hcolumns hs) (Txt ''File'') = 1"
  shows "files_of hs t = map (\<lambda>r. cell_at (hcolumns hs) r (Txt ''File'')) (turbine_rows hs t)"
  using assms by (simp add: files_of_def turbine_files_def)

lemma turbine_rows_value:
  "t \<noteq> NaN \<Longrightarrow>
     turbine_rows hs t = filter (\<lambda>r. cell_at (hcolumns hs) r (Txt ''Turbine'') = t) (hrows hs)"
  by (simp add: turbine_rows_def)

lemma turbine_rows_NaN: "turbine_rows hs NaN = []"
  by (simp add: turbine_rows_def)

lemma concat_map_concat:
  "concat (map (\<lambda>t. concat (map g (F t))) ts) = concat (map g (concat (map F ts)))"
  by (induction ts) simp_all

text \<open>The rows the loop builds, turbine by turbine, are those of the header rows.\<close>

lemma grouped_rows_mset:
  assumes single: "count_list (hcolumns hs) (Txt ''File'') = 1"
    and ne: "\<forall>t\<in>set (turbine_list hs). files_of hs t \<noteq> []"
  shows "mset (concat (map (\<lambda>t. concat (map (file_rows fs cols t) (files_of hs t))) (turbine_list hs)))
           = mset (concat (map (header_row_rows fs hs cols) (hrows hs)))"
proof -
  let ?k = "\<lambda>r. cell_at (hcolumns hs) r (Txt ''Turbine'')"
  let ?f = "\<lambda>r. cell_at (hcolumns hs) r (Txt ''File'')"
  let ?H = "header_row_rows fs hs cols"
  have val: "t \<noteq> NaN" if "t \<in> set (turbine_list hs)" for t
    using ne that turbine_files_single [OF single, of t] by (cases t) (auto simp: turbine_rows_NaN)
  have tl: "turbine_list hs = unique (map ?k (hrows hs))"
    by (simp add: turbine_list_def header_column_def)
  have one: "concat (map (file_rows fs cols t) (files_of hs t))
               = concat (map ?H (filter (\<lambda>r. ?k r = t) (hrows hs)))"
    if "t \<in> set (turbine_list hs)" for t
  proof -
    have "map (file_rows fs cols t) (files_of hs t)
            = map (\<lambda>r. file_rows fs cols t (?f r)) (filter (\<lambda>r. ?k r = t) (hrows hs))"
      by (simp add: turbine_files_single [OF single] turbine_rows_value [OF val [OF that]] comp_def)
    also have "\<dots> = map ?H (filter (\<lambda>r. ?k r = t) (hrows hs))"
      by (intro map_cong) (simp_all add: header_row_rows_def)
    finally show ?thesis by simp
  qed
  have "map (\<lambda>t. concat (map (file_rows fs cols t) (files_of hs t))) (turbine_list hs)
          = map (\<lambda>t. concat (map ?H (filter (\<lambda>r. ?k r = t) (hrows hs)))) (turbine_list hs)"
    by (intro map_cong) (simp_all add: one)
  then have "concat (map (\<lambda>t. concat (map (file_rows fs cols t) (files_of hs t))) (turbine_list hs))
          = concat (map (\<lambda>t. concat (map ?H (filter (\<lambda>r. ?k r = t) (hrows hs)))) (turbine_list hs))"
    by (rule arg_cong)
  also have "\<dots> = concat (map ?H (concat (map (\<lambda>t. filter (\<lambda>r. ?k r = t) (hrows hs)) (turbine_list hs))))"
    by (rule concat_map_concat)
  finally have "mset (concat (map (\<lambda>t. concat (map (file_rows fs cols t) (files_of hs t))) (turbine_list hs)))
          = mset (concat (map ?H (concat (map (\<lambda>t. filter (\<lambda>r. ?k r = t) (hrows hs)) (turbine_list hs)))))"
    by simp
  also have "\<dots> = mset (concat (map ?H (hrows hs)))"
    unfolding tl by (rule mset_concat_map_cong) (rule group_unique)
  finally show ?thesis .
qed

text \<open>
  C1. When \<^verbatim>\<open>get_scada_df\<close> returns a frame for a header table with one
  \<^verbatim>\<open>File\<close> column and a column selector that is not empty, the frame has as many rows
  as the bodies of all the files of the table together, and its rows are the body lines
  of these files, each line once for each time its file stands in the table: a row has
  the line's timestamp as its index, under every column of the frame the cell the line
  has under that label, and under \<^verbatim>\<open>Turbine\<close> the turbine of the file. The columns are
  the selected ones without the timestamp, and \<^verbatim>\<open>Turbine\<close>. The values of the
  \<^verbatim>\<open>Turbine\<close> column are the turbines of the header table whose files have at least
  one body row; when every turbine has one, they are as many as the turbines of the
  header table.
\<close>

theorem scada_rows_and_turbines:
  assumes "get_scada_df fs hs use_columns = Inr out"
    and "count_list (hcolumns hs) (Txt ''File'') = 1"
    and "selected use_columns \<noteq> []"
  shows "length (frows out) = (\<Sum>p\<leftarrow>header_column hs ''File''. body_rows fs p) \<and>
         mset (frows out) = mset (concat (map (header_row_rows fs hs (fcols out)) (hrows hs))) \<and>
         set (fcols out) = insert ''Turbine'' (set (selected use_columns) - {date_and_time}) \<and>
         set (frame_column out ''Turbine'')
           = {t \<in> set (header_column hs ''Turbine''). turbine_index fs hs t \<noteq> []} \<and>
         ((\<forall>t\<in>set (header_column hs ''Turbine''). turbine_index fs hs t \<noteq> []) \<longrightarrow>
            card (set (frame_column out ''Turbine'')) = card (set (header_column hs ''Turbine'')))"
proof -
  note f = get_scada_df_facts [OF assms(1)]
  note v = get_scada_df_views [OF assms(1,3)]
  have ts: "set (turbine_list hs) = set (header_column hs ''Turbine'')"
    by (simp add: turbine_list_def)
  have m: "mset (frows out) = mset (concat (map (header_row_rows fs hs (fcols out)) (hrows hs)))"
    unfolding f(5) [OF assms(3)] using assms(2) f(3) by (rule grouped_rows_mset)
  have "length (frows out) = size (mset (frows out))"
    by simp
  also have "\<dots> = length (concat (map (header_row_rows fs hs (fcols out)) (hrows hs)))"
    unfolding m by simp
  also have "\<dots> = (\<Sum>p\<leftarrow>header_column hs ''File''. body_rows fs p)"
    by (simp add: length_concat comp_def header_row_rows_def file_rows_length header_column_def)
  finally have n: "length (frows out) = (\<Sum>p\<leftarrow>header_column hs ''File''. body_rows fs p)" .
  have s: "set (frame_column out ''Turbine'')
             = {t \<in> set (header_column hs ''Turbine''). turbine_index fs hs t \<noteq> []}"
    unfolding v(3) ts [symmetric] by auto
  have "(\<forall>t\<in>set (header_column hs ''Turbine''). turbine_index fs hs t \<noteq> []) \<longrightarrow>
            card (set (frame_column out ''Turbine'')) = card (set (header_column hs ''Turbine''))"
    unfolding s by (auto intro: arg_cong [where f = card])
  with n m s f(1) show ?thesis by blast
qed

text \<open>
  Three farms on which the property fails as the specification states it. The header
  table of the idle farm has two turbines; the SCADA frame built from it has the rows of the first only, so its
  \<^verbatim>\<open>Turbine\<close> column takes one value. With the empty list as the column selector the
  frame built from the farm has no row, where the files of the header table have six.
  The header table of the seventh turbine has two \<^verbatim>\<open>File\<close> columns; the frame built
  from it has the one row of the file named \<^verbatim>\<open>File\<close> twice, and none of the three
  rows of the turbine's file.
\<close>

theorem idle_turbine_counterexample:
  "(get_scada_headers farm_idle [k1_2020, k1_2021, k2_2020] = Inr farm_headers \<and>
    get_scada_df farm_idle farm_headers None = Inr idle_scada \<and>
    unique (header_column farm_headers ''Turbine'') = [Txt ''Kelmarsh 1'', Txt ''Kelmarsh 2''] \<and>
    unique (frame_column idle_scada ''Turbine'') = [Txt ''Kelmarsh 1'']) \<and>
   (get_scada_headers farm [k1_2020, k1_2021, k2_2020] = Inr farm_headers \<and>
    get_scada_df farm farm_headers (Some []) = Inr empty_scada \<and>
    length (frows empty_scada) = 0 \<and>
    map (body_rows farm) (header_column farm_headers ''File'') = [2, 1, 3]) \<and>
   (get_scada_headers farm_twice [k7_2020] = Inr twice_headers \<and>
    get_scada_df farm_twice twice_headers None = Inr twice_scada \<and>
    length (frows twice_scada) = 2 \<and>
    map (body_rows farm_twice) (header_column twice_headers ''File'') = [3])"
  by code_simp

lemma farm_scada_runs:
  "\<not> isl (get_scada_df farm farm_headers None) \<and>
   count_list (hcolumns farm_headers) (Txt ''File'') = 1 \<and>
   selected None \<noteq> [] \<and>
   (\<Sum>p\<leftarrow>header_column farm_headers ''File''. body_rows farm p) = 6 \<and>
   list_all (\<lambda>t. turbine_index farm farm_headers t \<noteq> []) (header_column farm_headers ''Turbine'') \<and>
   card (set (header_column farm_headers ''Turbine'')) = 2"
  by code_simp

theorem scada_rows_and_turbines_witness:
  "\<exists>out. get_scada_df farm farm_headers None = Inr out \<and>
     count_list (hcolumns farm_headers) (Txt ''File'') = 1 \<and>
     selected None \<noteq> [] \<and>
     length (header_column farm_headers ''File'') = 3 \<and>
     length (frows out) = 6 \<and>
     mset (frows out) = mset (concat (map (header_row_rows farm farm_headers (fcols out)) (hrows farm_headers))) \<and>
     card (set (frame_column out ''Turbine'')) = 2"
proof -
  from farm_scada_runs obtain out where run: "get_scada_df farm farm_headers None = Inr out"
    by (cases "get_scada_df farm farm_headers None") auto
  from farm_scada_runs have single: "count_list (hcolumns farm_headers) (Txt ''File'') = 1"
    and sel: "selected None \<noteq> []"
    and all: "\<forall>t\<in>set (header_column farm_headers ''Turbine''). turbine_index farm farm_headers t \<noteq> []"
    by (simp_all add: list_all_iff)
  note t = scada_rows_and_turbines [OF run single sel]
  from t [THEN conjunct1] farm_scada_runs have "length (frows out) = 6"
    by simp
  moreover from t [THEN conjunct2, THEN conjunct2, THEN conjunct2, THEN conjunct2, THEN mp, OF all]
    farm_scada_runs
  have "card (set (frame_column out ''Turbine'')) = 2"
    by simp
  moreover have "length (header_column farm_headers ''File'') = 3"
    by (simp add: header_column_def farm_headers_def)
  moreover note t [THEN conjunct2, THEN conjunct1]
  ultimately show ?thesis using run single sel by blast
qed

text \<open>
  C2. \<^verbatim>\<open>get_curtailment_df\<close> is \<^verbatim>\<open>get_scada_df\<close> with the timestamp and the two
  lost-production columns as the selector. When it and \<^verbatim>\<open>get_scada_df\<close> with its
  default columns both return a frame for the same header table, the two frames have the
  same index cells in the same order, the same \<^verbatim>\<open>Turbine\<close> column and the same index
  name, and the columns of the curtailment frame are the two lost-production columns and
  \<^verbatim>\<open>Turbine\<close>. When the other frame is built with a selector that holds the
  lost-production columns, every column of the curtailment frame is, cell by cell, the
  column of that name of the other frame.
\<close>

theorem curtailment_is_scada_selection:
  "get_curtailment_df fs hs = get_scada_df fs hs (Some curtailment_columns) \<and>
   (\<forall>c s.
      get_curtailment_df fs hs = Inr c \<and> get_scada_df fs hs None = Inr s \<longrightarrow>
        map fst (frows c) = map fst (frows s) \<and>
        frame_column c ''Turbine'' = frame_column s ''Turbine'' \<and>
        index_name c = index_name s \<and>
        set (fcols c) = {''Lost Production to Curtailment (Total) (kWh)'',
                         ''Lost Production to Downtime (kWh)'', ''Turbine''}) \<and>
   (\<forall>c s use_columns.
      get_curtailment_df fs hs = Inr c \<and> get_scada_df fs hs use_columns = Inr s \<and>
      set curtailment_columns \<subseteq> set (selected use_columns) \<longrightarrow>
        map fst (frows c) = map fst (frows s) \<and>
        set (fcols c) \<subseteq> set (fcols s) \<and>
        (\<forall>n\<in>set (fcols c). frame_column c n = frame_column s n))"
proof -
  have e: "get_curtailment_df fs hs = get_scada_df fs hs (Some curtailment_columns)"
    by (simp add: get_curtailment_df_def)
  have cne: "selected (Some curtailment_columns) \<noteq> []"
    by (simp add: selected_def curtailment_columns_def)
  have dne: "selected None \<noteq> []"
    by (simp add: selected_def default_columns_def)
  have one: "map fst (frows c) = map fst (frows s) \<and>
        frame_column c ''Turbine'' = frame_column s ''Turbine'' \<and>
        index_name c = index_name s \<and>
        set (fcols c) = {''Lost Production to Curtailment (Total) (kWh)'',
                         ''Lost Production to Downtime (kWh)'', ''Turbine''}"
    if c: "get_curtailment_df fs hs = Inr c" and s: "get_scada_df fs hs None = Inr s" for c s
  proof -
    note fc = get_scada_df_facts [OF c [unfolded e]]
    note fs = get_scada_df_facts [OF s]
    note vc = get_scada_df_views [OF c [unfolded e] cne]
    note vs = get_scada_df_views [OF s dne]
    have k: "set (fcols c) = {''Lost Production to Curtailment (Total) (kWh)'',
                         ''Lost Production to Downtime (kWh)'', ''Turbine''}"
      unfolding fc(1) by (auto simp: selected_def curtailment_columns_def date_and_time_def)
    have "map fst (frows c) = map fst (frows s)"
      by (simp only: vc(1) vs(1))
    moreover have "frame_column c ''Turbine'' = frame_column s ''Turbine''"
      by (simp only: vc(3) vs(3))
    moreover have "index_name c = index_name s"
      by (simp only: fc(2) fs(2))
    ultimately show ?thesis
      using k by (intro conjI)
  qed
  have two: "map fst (frows c) = map fst (frows s) \<and>
        set (fcols c) \<subseteq> set (fcols s) \<and>
        (\<forall>n\<in>set (fcols c). frame_column c n = frame_column s n)"
    if c: "get_curtailment_df fs hs = Inr c" and s: "get_scada_df fs hs uc = Inr s"
      and sub: "set curtailment_columns \<subseteq> set (selected uc)" for c s uc
  proof -
    have "date_and_time \<in> set curtailment_columns"
      by (simp add: curtailment_columns_def)
    with sub have ne: "selected uc \<noteq> []"
      by auto
    have sel: "selected (Some curtailment_columns) = curtailment_columns"
      by (simp add: selected_def)
    note fc = get_scada_df_facts [OF c [unfolded e]]
    note fs = get_scada_df_facts [OF s]
    note vc = get_scada_df_views [OF c [unfolded e] cne]
    note vs = get_scada_df_views [OF s ne]
    have cols: "set (fcols c) \<subseteq> set (fcols s)"
      unfolding fc(1) fs(1) sel using sub by blast
    have col: "frame_column c n = frame_column s n" if n: "n \<in> set (fcols c)" for n
    proof -
      from cols n have "n \<in> set (fcols s)" by blast
      then show ?thesis
        by (simp only: vc(2) [OF n] vs(2))
    qed
    have "map fst (frows c) = map fst (frows s)"
      by (simp only: vc(1) vs(1))
    with cols col show ?thesis
      by blast
  qed
  have first: "\<forall>c s.
      get_curtailment_df fs hs = Inr c \<and> get_scada_df fs hs None = Inr s \<longrightarrow>
        map fst (frows c) = map fst (frows s) \<and>
        frame_column c ''Turbine'' = frame_column s ''Turbine'' \<and>
        index_name c = index_name s \<and>
        set (fcols c) = {''Lost Production to Curtailment (Total) (kWh)'',
                         ''Lost Production to Downtime (kWh)'', ''Turbine''}"
  proof (intro allI impI)
    fix c s
    assume "get_curtailment_df fs hs = Inr c \<and> get_scada_df fs hs None = Inr s"
    then have c: "get_curtailment_df fs hs = Inr c" and s: "get_scada_df fs hs None = Inr s"
      by simp_all
    from one [OF c s]
    show "map fst (frows c) = map fst (frows s) \<and>
        frame_column c ''Turbine'' = frame_column s ''Turbine'' \<and>
        index_name c = index_name s \<and>
        set (fcols c) = {''Lost Production to Curtailment (Total) (kWh)'',
                         ''Lost Production to Downtime (kWh)'', ''Turbine''}" .
  qed
  have second: "\<forall>c s use_columns.
      get_curtailment_df fs hs = Inr c \<and> get_scada_df fs hs use_columns = Inr s \<and>
      set curtailment_columns \<subseteq> set (selected use_columns) \<longrightarrow>
        map fst (frows c) = map fst (frows s) \<and>
        set (fcols c) \<subseteq> set (fcols s) \<and>
        (\<forall>n\<in>set (fcols c). frame_column c n = frame_column s n)"
  proof (intro allI impI)
    fix c s use_columns
    assume "get_curtailment_df fs hs = Inr c \<and> get_scada_df fs hs use_columns = Inr s \<and>
      set curtailment_columns \<subseteq> set (selected use_columns)"
    then have c: "get_curtailment_df fs hs = Inr c" and s: "get_scada_df fs hs use_columns = Inr s"
      and sub: "set curtailment_columns \<subseteq> set (selected use_columns)"
      by simp_all
    from two [OF c s sub]
    show "map fst (frows c) = map fst (frows s) \<and>
        set (fcols c) \<subseteq> set (fcols s) \<and>
        (\<forall>n\<in>set (fcols c). frame_column c n = frame_column s n)" .
  qed
  from e first second show ?thesis
    by (intro conjI)
qed

lemma farm_views_run:
  "\<not> isl (get_curtailment_df farm farm_headers) \<and> \<not> isl (get_scada_df farm farm_headers None) \<and>
   \<not> isl (get_scada_df farm farm_headers (Some scada_names)) \<and>
   set curtailment_columns \<subseteq> set (selected (Some scada_names))"
  by code_simp

theorem curtailment_is_scada_selection_witness:
  "\<exists>c s a. get_curtailment_df farm farm_headers = Inr c \<and>
     get_scada_df farm farm_headers None = Inr s \<and>
     get_scada_df farm farm_headers (Some scada_names) = Inr a \<and>
     set curtailment_columns \<subseteq> set (selected (Some scada_names)) \<and>
     get_scada_df farm farm_headers (Some curtailment_columns) = Inr c \<and>
     map fst (frows c) = map fst (frows s) \<and>
     frame_column c ''Turbine'' = frame_column s ''Turbine'' \<and>
     (\<forall>n\<in>set (fcols c). frame_column c n = frame_column a n)"
proof -
  from farm_views_run obtain c s a where
    c: "get_curtailment_df farm farm_headers = Inr c"
    and s: "get_scada_df farm farm_headers None = Inr s"
    and a: "get_scada_df farm farm_headers (Some scada_names) = Inr a"
    by (cases "get_curtailment_df farm farm_headers"; cases "get_scada_df farm farm_headers None";
        cases "get_scada_df farm farm_headers (Some scada_names)") auto
  from farm_views_run have sub: "set curtailment_columns \<subseteq> set (selected (Some scada_names))"
    by simp
  note t = curtailment_is_scada_selection [of farm farm_headers]
  from t [THEN conjunct1] c
  have "get_scada_df farm farm_headers (Some curtailment_columns) = Inr c"
    by simp
  moreover from t [THEN conjunct2, THEN conjunct1] c s
  have "map fst (frows c) = map fst (frows s) \<and> frame_column c ''Turbine'' = frame_column s ''Turbine''"
    by blast
  moreover from t [THEN conjunct2, THEN conjunct2] c a sub
  have "\<forall>n\<in>set (fcols c). frame_column c n = frame_column a n"
    by blast
  ultimately show ?thesis using c s a sub by blast
qed

subsection \<open>C8: the header table\<close>

lemma str_replace_prefix: "str_replace (''# '' @ k) = str_replace k"
  by simp

lemma str_replace_id:
  "(\<forall>i. Suc i < length k \<longrightarrow> \<not> (k ! i = CHR ''#'' \<and> k ! Suc i = CHR '' '')) \<Longrightarrow> str_replace k = k"
proof (induction k rule: str_replace.induct)
  case (1 a b cs)
  from "1.prems" [rule_format, of 0] have ab: "\<not> (a = CHR ''#'' \<and> b = CHR '' '')" by simp
  have "\<forall>i. Suc i < length (b # cs) \<longrightarrow> \<not> ((b # cs) ! i = CHR ''#'' \<and> (b # cs) ! Suc i = CHR '' '')"
  proof (intro allI impI)
    fix i assume "Suc i < length (b # cs)"
    with "1.prems" [rule_format, of "Suc i"]
    show "\<not> ((b # cs) ! i = CHR ''#'' \<and> (b # cs) ! Suc i = CHR '' '')" by simp
  qed
  with "1.IH"(2) ab have "str_replace (b # cs) = b # cs" by blast
  with ab show ?case by auto
qed simp_all

lemma marker_free_strip:
  assumes "marker_free k"
  shows "str_replace (''# '' @ k) = k" and "str_replace k = k"
proof -
  have "\<forall>i. Suc i < length k \<longrightarrow> \<not> (k ! i = CHR ''#'' \<and> k ! Suc i = CHR '' '')"
    using assms by (auto simp: marker_free_def list_ex_iff)
  then show "str_replace k = k" by (rule str_replace_id)
  then show "str_replace (''# '' @ k) = k" by simp
qed

lemma headers_of_read:
  "list_all2 (\<lambda>f h. read_header fs f = Inr h) files hs \<Longrightarrow> headers_of fs files = hs"
  unfolding headers_of_def
  by (induction files hs rule: list_all2_induct) simp_all

lemma union_index_set:
  assumes "union_index idxs = Inr keys" and "idxs \<noteq> []"
  shows "set keys = set (concat idxs)"
proof (cases "list_all (\<lambda>i. i = hd idxs) idxs")
  case True
  with assms(1) have k: "keys = hd idxs" by (simp add: union_index_def)
  from True have "\<forall>i\<in>set idxs. i = keys" by (simp add: list_all_iff k)
  with assms(2) show ?thesis by (cases idxs) auto
next
  case False
  with assms(1) have "keys = unique (concat idxs)"
    by (simp add: union_index_def split: if_splits)
  then show ?thesis by simp
qed

lemma reindex_cell:
  assumes "j < length keys" and "length col = length own"
  shows "(keys ! j \<in> set own \<longrightarrow> (\<exists>i<length own. own ! i = keys ! j \<and> reindex keys own col ! j = col ! i)) \<and>
         (keys ! j \<notin> set own \<longrightarrow> reindex keys own col ! j = NaN)"
proof (cases "own = keys")
  case True
  with assms show ?thesis
    by (auto simp: reindex_def)
next
  case False
  then have v: "reindex keys own col ! j = (case map_of (zip own col) (keys ! j) of None \<Rightarrow> NaN | Some v \<Rightarrow> v)"
    using assms(1) by (simp add: reindex_def cell_at_def)
  show ?thesis
  proof (cases "map_of (zip own col) (keys ! j)")
    case None
    moreover have "fst ` set (zip own col) = set own"
      using assms(2) by (metis map_fst_zip set_map)
    ultimately have "keys ! j \<notin> set own"
      by (simp add: map_of_eq_None_iff)
    then show ?thesis by (simp add: v None)
  next
    case (Some x)
    then have "(keys ! j, x) \<in> set (zip own col)" by (rule map_of_SomeD)
    then obtain i where "i < length own" "own ! i = keys ! j" "col ! i = x"
      using assms(2) by (auto simp: set_zip)
    moreover from this have "keys ! j \<in> set own" by (metis nth_mem)
    ultimately show ?thesis by (auto simp: v Some)
  qed
qed

lemma strip_index_Inr: "strip_index keys = Inr cols \<Longrightarrow> cols = map strip_key keys"
  by (auto simp: strip_index_def split: if_splits)

lemma get_scada_headers_Inr:
  assumes "get_scada_headers fs files = Inr t"
  obtains hs keys where
    "list_all2 (\<lambda>f h. read_header fs f = Inr h) files hs"
    "hs \<noteq> []"
    "union_index (map hkeys hs) = Inr keys"
    "t = \<lparr>hcolumns = map (\<lambda>c. if c = Txt ''index'' then Txt ''File'' else c)
                       (Txt (if Txt ''index'' \<in> set (map strip_key keys) then ''level_0'' else ''index'')
                        # map strip_key keys),
          hrows = map (\<lambda>(l, col). l # col)
                    (concat (map (\<lambda>(f, h). map (\<lambda>(l, col). (l, reindex keys (hkeys h) col))
                                               (header_columns f h))
                                 (zip files hs)))\<rparr>"
proof -
  from assms obtain hs where tr: "traverse (read_header fs) files = Inr hs"
    unfolding get_scada_headers_def by (cases "traverse (read_header fs) files") simp_all
  with assms have ne: "hs \<noteq> []"
    unfolding get_scada_headers_def by (auto split: if_splits)
  from assms tr ne obtain keys where u: "union_index (map hkeys hs) = Inr keys"
    unfolding get_scada_headers_def by (cases "union_index (map hkeys hs)") simp_all
  from assms tr ne u obtain cols where s: "strip_index keys = Inr cols"
    unfolding get_scada_headers_def Let_def by (cases "strip_index keys") simp_all
  have c: "cols = map strip_key keys" using s by (rule strip_index_Inr)
  have "t = \<lparr>hcolumns = map (\<lambda>c. if c = Txt ''index'' then Txt ''File'' else c)
                       (Txt (if Txt ''index'' \<in> set (map strip_key keys) then ''level_0'' else ''index'')
                        # map strip_key keys),
          hrows = map (\<lambda>(l, col). l # col)
                    (concat (map (\<lambda>(f, h). map (\<lambda>(l, col). (l, reindex keys (hkeys h) col))
                                               (header_columns f h))
                                 (zip files hs)))\<rparr>"
    using assms unfolding get_scada_headers_def Let_def
    by (simp add: tr ne u s c split: if_splits)
  with tr ne u show ?thesis
    by (intro that [of hs keys]) (simp_all add: traverse_Inr_iff)
qed


lemma readable_headers:
  "\<forall>f\<in>set files. \<exists>h. read_header fs f = Inr h
     \<Longrightarrow> list_all2 (\<lambda>f h. read_header fs f = Inr h) files (headers_of fs files)"
  unfolding headers_of_def by (induction files) auto

lemma union_index_total:
  assumes "list_all distinct idxs"
  shows "\<exists>keys. union_index idxs = Inr keys"
  using assms by (simp add: union_index_def)

lemma header_columns_length: "length (header_columns f h) = length (hvalues h)"
  unfolding header_columns_def length_map length_zip length_upt by simp

lemma header_columns_one:
  "one_value h \<Longrightarrow> header_columns f h = [(Txt f, hd (hvalues h))]"
  by (cases "hvalues h") (simp_all add: one_value_def header_columns_def)

lemma joined_length:
  "length files = length hs \<Longrightarrow>
     length (concat (map (\<lambda>(f, h). map (g h) (header_columns f h)) (zip files hs)))
       = (\<Sum>h\<leftarrow>hs. length (hvalues h))"
proof (induction files hs rule: list_induct2)
  case Nil
  then show ?case by simp
next
  case (Cons f files h hs)
  then show ?case by (simp add: header_columns_length)
qed

lemma joined_one:
  "length files = length hs \<Longrightarrow> list_all one_value hs \<Longrightarrow>
     concat (map (\<lambda>(f, h). map (\<lambda>(l, col). (l, g h col)) (header_columns f h)) (zip files hs))
       = map (\<lambda>(f, h). (Txt f, g h (hd (hvalues h)))) (zip files hs)"
proof (induction files hs rule: list_induct2)
  case Nil
  then show ?case by simp
next
  case (Cons f files h hs)
  then show ?case by (simp add: header_columns_one)
qed

lemma header_table_success:
  assumes "get_scada_headers fs files = Inr t"
  shows "files \<noteq> [] \<and>
      length (hrows t) = (\<Sum>h\<leftarrow>headers_of fs files. length (hvalues h)) \<and>
      (list_all one_value (headers_of fs files) \<longrightarrow>
         length (hrows t) = length files \<and>
         (\<exists>keys. set keys = set (header_keys fs files) \<and>
            hrows t = map (\<lambda>(f, h). Txt f # reindex keys (hkeys h) (hd (hvalues h)))
                          (zip files (headers_of fs files)) \<and>
            (Txt ''index'' \<notin> set (map strip_key keys) \<longrightarrow>
               hcolumns t = Txt ''File'' # map strip_key keys \<and>
               header_column t ''File'' = map Txt files)))"
proof -
  from assms obtain hs keys where
    r: "list_all2 (\<lambda>f h. read_header fs f = Inr h) files hs"
    and ne: "hs \<noteq> []"
    and u: "union_index (map hkeys hs) = Inr keys"
    and t: "t = \<lparr>hcolumns = map (\<lambda>c. if c = Txt ''index'' then Txt ''File'' else c)
                       (Txt (if Txt ''index'' \<in> set (map strip_key keys) then ''level_0'' else ''index'')
                        # map strip_key keys),
          hrows = map (\<lambda>(l, col). l # col)
                    (concat (map (\<lambda>(f, h). map (\<lambda>(l, col). (l, reindex keys (hkeys h) col))
                                               (header_columns f h))
                                 (zip files hs)))\<rparr>"
    by (rule get_scada_headers_Inr)
  have hs: "headers_of fs files = hs" using r by (rule headers_of_read)
  have len: "length files = length hs" using r by (rule list_all2_lengthD)
  with ne have f: "files \<noteq> []" by auto
  have cols: "hcolumns t = map (\<lambda>c. if c = Txt ''index'' then Txt ''File'' else c)
                       (Txt (if Txt ''index'' \<in> set (map strip_key keys) then ''level_0'' else ''index'')
                        # map strip_key keys)"
    by (subst t) simp
  have rws: "hrows t = map (\<lambda>(l, col). l # col)
                    (concat (map (\<lambda>(f, h). map (\<lambda>(l, col). (l, reindex keys (hkeys h) col))
                                               (header_columns f h))
                                 (zip files hs)))"
    by (subst t) simp
  have n: "length (hrows t) = (\<Sum>h\<leftarrow>headers_of fs files. length (hvalues h))"
    unfolding rws hs length_map by (rule joined_length [OF len])
  have k: "set keys = set (header_keys fs files)"
    using union_index_set [OF u] ne by (simp add: header_keys_def hs)
  have one: "length (hrows t) = length files \<and>
         (\<exists>keys. set keys = set (header_keys fs files) \<and>
            hrows t = map (\<lambda>(f, h). Txt f # reindex keys (hkeys h) (hd (hvalues h)))
                          (zip files (headers_of fs files)) \<and>
            (Txt ''index'' \<notin> set (map strip_key keys) \<longrightarrow>
               hcolumns t = Txt ''File'' # map strip_key keys \<and>
               header_column t ''File'' = map Txt files))"
    if o: "list_all one_value (headers_of fs files)"
  proof -
    from o have o': "list_all one_value hs" by (simp add: hs)
    have rw: "hrows t = map (\<lambda>(f, h). Txt f # reindex keys (hkeys h) (hd (hvalues h))) (zip files hs)"
      unfolding rws joined_one [OF len o'] by (simp add: comp_def split_def)
    then have l: "length (hrows t) = length files"
      using len by simp
    have c: "hcolumns t = Txt ''File'' # map strip_key keys \<and> header_column t ''File'' = map Txt files"
      if i: "Txt ''index'' \<notin> set (map strip_key keys)"
    proof -
      have "c \<noteq> Txt ''index''" if "c \<in> set (map strip_key keys)" for c
        using i that by blast
      then have "map (\<lambda>c. if c = Txt ''index'' then Txt ''File'' else c) (map strip_key keys)
              = map strip_key keys"
        by (intro map_idI) simp
      with i have cs: "hcolumns t = Txt ''File'' # map strip_key keys"
        by (simp add: cols)
      have "map (\<lambda>r. cell_at (hcolumns t) r (Txt ''File'')) (hrows t) = map Txt (map fst (zip files hs))"
        unfolding cs rw by (simp add: cell_at_def comp_def case_prod_unfold)
      then have "header_column t ''File'' = map Txt files"
        using len by (simp add: header_column_def)
      with cs show ?thesis by simp
    qed
    from l k rw c show ?thesis
      unfolding hs by blast
  qed
  from f n one show ?thesis by blast
qed

lemma header_table_total:
  assumes "files \<noteq> []"
    and "\<forall>f\<in>set files. \<exists>h. read_header fs f = Inr h \<and> distinct (hkeys h)"
    and "header_keys fs files = [] \<or> list_ex is_text (header_keys fs files)"
    and "Txt ''index'' \<notin> set (map strip_key (header_keys fs files))"
  shows "\<exists>t. get_scada_headers fs files = Inr t"
proof -
  let ?hs = "headers_of fs files"
  have r: "list_all2 (\<lambda>f h. read_header fs f = Inr h) files ?hs"
    using assms(2) by (intro readable_headers) blast
  then have tr: "traverse (read_header fs) files = Inr ?hs"
    by (simp add: traverse_Inr_iff)
  have ne: "?hs \<noteq> []" using assms(1) by (simp add: headers_of_def)
  have "\<forall>h\<in>set ?hs. distinct (hkeys h)"
    using assms(2) by (auto simp: headers_of_def)
  then have "list_all distinct (map hkeys ?hs)"
    by (simp add: list_all_iff)
  then obtain keys where u: "union_index (map hkeys ?hs) = Inr keys"
    using union_index_total by blast
  have k: "set keys = set (header_keys fs files)"
    using union_index_set [OF u] ne by (simp add: header_keys_def)
  have "keys = [] \<or> list_ex is_text keys"
    using assms(3) k by (auto simp: list_ex_iff)
  then have s: "strip_index keys = Inr (map strip_key keys)"
    by (auto simp: strip_index_def)
  have i: "Txt ''index'' \<notin> set (map strip_key keys)"
    using assms(4) k by simp
  show ?thesis
    unfolding get_scada_headers_def Let_def by (simp add: tr ne u s i del: set_map)
qed

text \<open>
  C8. When the header extractor returns a table, the list of files is not empty and the
  table has one row for every value column of every header. When every header has one
  value column, that is one row per file, in order: the path, then the file's value for
  each key of the joint index, which holds exactly the keys the files declare. The value
  is one the file declares for that key, and missing when the file does not declare the
  key. The columns after the first are the keys with every \<^verbatim>\<open># \<close> removed; for a key
  that holds the marker at its start only, that is the key without it. Where no stripped
  key reads \<^verbatim>\<open>index\<close>, the first column is \<^verbatim>\<open>File\<close> and holds the paths, and the
  extractor returns a table whenever the list is not empty, every header is read and
  repeats no key, and the keys are none or hold a text.
\<close>

theorem scada_header_table:
  "(\<forall>t. get_scada_headers fs files = Inr t \<longrightarrow>
      files \<noteq> [] \<and>
      length (hrows t) = (\<Sum>h\<leftarrow>headers_of fs files. length (hvalues h)) \<and>
      (list_all one_value (headers_of fs files) \<longrightarrow>
         length (hrows t) = length files \<and>
         (\<exists>keys. set keys = set (header_keys fs files) \<and>
            hrows t = map (\<lambda>(f, h). Txt f # reindex keys (hkeys h) (hd (hvalues h)))
                          (zip files (headers_of fs files)) \<and>
            (Txt ''index'' \<notin> set (map strip_key keys) \<longrightarrow>
               hcolumns t = Txt ''File'' # map strip_key keys \<and>
               header_column t ''File'' = map Txt files)))) \<and>
   (\<forall>keys own col j. j < length keys \<and> length col = length own \<longrightarrow>
      (keys ! j \<in> set own \<longrightarrow>
         (\<exists>i<length own. own ! i = keys ! j \<and> reindex keys own col ! j = col ! i)) \<and>
      (keys ! j \<notin> set own \<longrightarrow> reindex keys own col ! j = NaN)) \<and>
   (\<forall>k. strip_key (Txt k) = Txt (str_replace k) \<and>
        (marker_free k \<longrightarrow> str_replace (''# '' @ k) = k \<and> str_replace k = k)) \<and>
   (files \<noteq> [] \<and>
    (\<forall>f\<in>set files. \<exists>h. read_header fs f = Inr h \<and> distinct (hkeys h)) \<and>
    (header_keys fs files = [] \<or> list_ex is_text (header_keys fs files)) \<and>
    Txt ''index'' \<notin> set (map strip_key (header_keys fs files))
    \<longrightarrow> (\<exists>t. get_scada_headers fs files = Inr t))"
proof (intro conjI)
  show "\<forall>t. get_scada_headers fs files = Inr t \<longrightarrow>
      files \<noteq> [] \<and>
      length (hrows t) = (\<Sum>h\<leftarrow>headers_of fs files. length (hvalues h)) \<and>
      (list_all one_value (headers_of fs files) \<longrightarrow>
         length (hrows t) = length files \<and>
         (\<exists>keys. set keys = set (header_keys fs files) \<and>
            hrows t = map (\<lambda>(f, h). Txt f # reindex keys (hkeys h) (hd (hvalues h)))
                          (zip files (headers_of fs files)) \<and>
            (Txt ''index'' \<notin> set (map strip_key keys) \<longrightarrow>
               hcolumns t = Txt ''File'' # map strip_key keys \<and>
               header_column t ''File'' = map Txt files)))"
    using header_table_success [of fs files] by (intro allI impI)
  show "\<forall>keys own col j. j < length keys \<and> length col = length own \<longrightarrow>
      (keys ! j \<in> set own \<longrightarrow>
         (\<exists>i<length own. own ! i = keys ! j \<and> reindex keys own col ! j = col ! i)) \<and>
      (keys ! j \<notin> set own \<longrightarrow> reindex keys own col ! j = NaN)"
  proof (intro allI impI)
    fix keys own col :: "cell list" and j :: nat
    assume "j < length keys \<and> length col = length own"
    then have "j < length keys" and "length col = length own" by simp_all
    then show "(keys ! j \<in> set own \<longrightarrow>
         (\<exists>i<length own. own ! i = keys ! j \<and> reindex keys own col ! j = col ! i)) \<and>
      (keys ! j \<notin> set own \<longrightarrow> reindex keys own col ! j = NaN)"
      by (rule reindex_cell)
  qed
  show "\<forall>k. strip_key (Txt k) = Txt (str_replace k) \<and>
        (marker_free k \<longrightarrow> str_replace (''# '' @ k) = k \<and> str_replace k = k)"
    using marker_free_strip by (simp add: strip_key_def)
  show "files \<noteq> [] \<and>
    (\<forall>f\<in>set files. \<exists>h. read_header fs f = Inr h \<and> distinct (hkeys h)) \<and>
    (header_keys fs files = [] \<or> list_ex is_text (header_keys fs files)) \<and>
    Txt ''index'' \<notin> set (map strip_key (header_keys fs files))
    \<longrightarrow> (\<exists>t. get_scada_headers fs files = Inr t)"
    using header_table_total [of files fs] by (intro impI) (elim conjE)
qed

text \<open>
  Inputs on which the property fails as the specification states it. The extractor
  raises on the empty list of files. The file whose first header line
  holds the separator twice gives two rows of the table, the second labelled 2; the file
  whose header lines hold no separator gives none. The file whose keys are numbers makes
  the stripping raise, and the file that repeats a key cannot be joined with another.
\<close>

theorem scada_header_table_counterexample:
  "get_scada_headers farm_mixed [] = Inl ValueError \<and>
   (get_scada_headers farm_mixed [k4_2020] = Inr two_row_headers \<and>
    hrows two_row_headers = [[Txt k4_2020, Txt ''Kelmarsh 4'', Txt ''UTC''],
                             [Num 2, Txt ''spare'', NaN]]) \<and>
   (get_scada_headers farm_mixed [k8_2020] = Inr no_row_headers \<and> hrows no_row_headers = []) \<and>
   get_scada_headers farm_mixed [k5_2020] = Inl AttributeError \<and>
   get_scada_headers farm_mixed [k1_2020, k6_2020] = Inl InvalidIndexError"
  by code_simp

lemma mixed_run:
  "get_scada_headers farm_mixed [k1_2020, k3_2020] = Inr mixed_headers \<and>
   header_keys farm_mixed [k1_2020, k3_2020] = [Txt ''# Turbine'', Txt ''# Time zone'', Txt ''# Hub height''] \<and>
   list_all one_value (headers_of farm_mixed [k1_2020, k3_2020]) \<and>
   list_all (\<lambda>f. case read_header farm_mixed f of Inl e \<Rightarrow> False | Inr h \<Rightarrow> distinct (hkeys h))
            [k1_2020, k3_2020] \<and>
   list_all marker_free [''Turbine'', ''Time zone'', ''Hub height'']"
  by code_simp

theorem scada_header_table_witness:
  "get_scada_headers farm_mixed [k1_2020, k3_2020] = Inr mixed_headers \<and>
   list_all one_value (headers_of farm_mixed [k1_2020, k3_2020]) \<and>
   length (hrows mixed_headers) = length [k1_2020, k3_2020] \<and>
   header_column mixed_headers ''File'' = [Txt k1_2020, Txt k3_2020] \<and>
   hcolumns mixed_headers = [Txt ''File'', Txt ''Turbine'', Txt ''Time zone'', Txt ''Hub height''] \<and>
   hrows mixed_headers = [[Txt k1_2020, Txt ''Kelmarsh 1'', Txt ''UTC'', NaN],
                          [Txt k3_2020, Txt ''Kelmarsh 3'', NaN, Txt ''78.5'']] \<and>
   str_replace ''# Hub height'' = ''Hub height''"
proof -
  from mixed_run have run: "get_scada_headers farm_mixed [k1_2020, k3_2020] = Inr mixed_headers"
    and keys: "header_keys farm_mixed [k1_2020, k3_2020]
                 = [Txt ''# Turbine'', Txt ''# Time zone'', Txt ''# Hub height'']"
    and one: "list_all one_value (headers_of farm_mixed [k1_2020, k3_2020])"
    and free: "marker_free ''Hub height''"
    by simp_all
  note t = scada_header_table [of farm_mixed "[k1_2020, k3_2020]"]
  from t [THEN conjunct1, rule_format, OF run, THEN conjunct2, THEN conjunct2, THEN mp, OF one]
  obtain ks where len: "length (hrows mixed_headers) = length [k1_2020, k3_2020]"
    and ks: "set ks = set (header_keys farm_mixed [k1_2020, k3_2020])"
    and c: "Txt ''index'' \<notin> set (map strip_key ks) \<longrightarrow>
              hcolumns mixed_headers = Txt ''File'' # map strip_key ks \<and>
              header_column mixed_headers ''File'' = map Txt [k1_2020, k3_2020]"
    by blast
  have "Txt ''index'' \<notin> set (map strip_key ks)"
    unfolding set_map ks keys by (simp add: strip_key_def)
  with c have "header_column mixed_headers ''File'' = map Txt [k1_2020, k3_2020]"
    by simp
  moreover from t [THEN conjunct2, THEN conjunct2, THEN conjunct1, rule_format, of "''Hub height''"] free
  have "str_replace ''# Hub height'' = ''Hub height''"
    by simp
  moreover have "hcolumns mixed_headers = [Txt ''File'', Txt ''Turbine'', Txt ''Time zone'', Txt ''Hub height'']"
    and "hrows mixed_headers = [[Txt k1_2020, Txt ''Kelmarsh 1'', Txt ''UTC'', NaN],
                          [Txt k3_2020, Txt ''Kelmarsh 3'', NaN, Txt ''78.5'']]"
    by (simp_all add: mixed_headers_def)
  ultimately show ?thesis
    using run one len by simp
qed

end
